theory Spec2Isabelle
  imports Complex_Main "HOL-Library.Sublist"
begin

section \<open>Python strings\<close>

text \<open>
  A Python \<open>str\<close> is a sequence of Unicode code points; \<open>len\<close>, slicing and
  \<open>startswith\<close> count code points. A string is therefore a list of code points
  (natural numbers), not a list of bytes: the bullet U+2022 is one element.
\<close>

type_synonym pystr = "nat list"

definition py :: "string \<Rightarrow> pystr" where
  "py s = map of_char s"

definition bullet :: nat where
  "bullet = 8226"

text \<open>
  The tables of the Python runtime that the program consults (which code points are white
  space or digits, how a string is lower-cased, which characters a regular expression
  equates under \<open>re.IGNORECASE\<close>, in which order \<open>list(set(xs))\<close> enumerates a set) are
  not part of the repository. They are a parameter of every function below; the theorems
  hold for every choice of them, except that an enumeration of a set is required to list
  each element of the set once where a theorem says so.
\<close>

record pylib =
  str_isspace :: "nat \<Rightarrow> bool"
  str_lower :: "pystr \<Rightarrow> pystr"
  chr_isdigit :: "nat \<Rightarrow> bool"
  re_d :: "nat \<Rightarrow> bool"
  re_s :: "nat \<Rightarrow> bool"
  re_ieq :: "nat \<Rightarrow> nat \<Rightarrow> bool"
  set_iter :: "pystr list \<Rightarrow> pystr list"

text \<open>
  The tables restricted to ASCII letters and digits, with Python's full white-space set.
  They agree with the Python runtime on every text made of ASCII characters and bullets,
  and are used to run the functions on concrete texts.
\<close>

definition ascii_lower :: "nat \<Rightarrow> nat" where
  "ascii_lower c = (if 65 \<le> c \<and> c \<le> 90 then c + 32 else c)"

definition py_space :: "nat \<Rightarrow> bool" where
  "py_space c = ((9 \<le> c \<and> c \<le> 13) \<or> (28 \<le> c \<and> c \<le> 32) \<or> c = 133 \<or> c = 160
     \<or> c = 5760 \<or> (8192 \<le> c \<and> c \<le> 8202) \<or> c = 8232 \<or> c = 8233 \<or> c = 8239
     \<or> c = 8287 \<or> c = 12288)"

definition ascii_digit :: "nat \<Rightarrow> bool" where
  "ascii_digit c = (48 \<le> c \<and> c \<le> 57)"

definition basic_lib :: pylib where
  "basic_lib = \<lparr> str_isspace = py_space, str_lower = map ascii_lower,
     chr_isdigit = ascii_digit, re_d = ascii_digit, re_s = py_space,
     re_ieq = (\<lambda>p c. ascii_lower p = ascii_lower c), set_iter = remdups \<rparr>"

text \<open>What Python guarantees of \<open>list(set(xs))\<close>: the elements of \<open>xs\<close>, each once.\<close>

definition set_iter_ok :: "pylib \<Rightarrow> bool" where
  "set_iter_ok L = (\<forall>xs. distinct (set_iter L xs) \<and> set (set_iter L xs) = set xs)"

text \<open>\<open>s.split()\<close>: maximal runs of non-space characters; no empty strings.\<close>

fun split_acc :: "(nat \<Rightarrow> bool) \<Rightarrow> pystr \<Rightarrow> pystr \<Rightarrow> pystr list" where
  "split_acc sp acc [] = (if acc = [] then [] else [acc])"
| "split_acc sp acc (c # cs) =
     (if sp c then (if acc = [] then split_acc sp [] cs else acc # split_acc sp [] cs)
      else split_acc sp (acc @ [c]) cs)"

definition py_split :: "pylib \<Rightarrow> pystr \<Rightarrow> pystr list" where
  "py_split L s = split_acc (str_isspace L) [] s"

text \<open>\<open>s.strip()\<close>.\<close>

definition py_strip :: "pylib \<Rightarrow> pystr \<Rightarrow> pystr" where
  "py_strip L s = rev (dropWhile (str_isspace L) (rev (dropWhile (str_isspace L) s)))"

text \<open>\<open>s.split(d)\<close> for a one-character separator: empty pieces are kept.\<close>

fun split_on :: "nat \<Rightarrow> pystr \<Rightarrow> pystr list" where
  "split_on d [] = [[]]"
| "split_on d (c # cs) =
     (if c = d then [] # split_on d cs
      else (case split_on d cs of [] \<Rightarrow> [[c]] | w # ws \<Rightarrow> (c # w) # ws))"

text \<open>\<open>sep.join(ws)\<close>.\<close>

fun join :: "pystr \<Rightarrow> pystr list \<Rightarrow> pystr" where
  "join sep [] = []"
| "join sep [w] = w"
| "join sep (w # ws) = w @ sep @ join sep ws"

definition startswith :: "pystr \<Rightarrow> pystr \<Rightarrow> bool" where
  "startswith s p = (take (length p) s = p)"

text \<open>\<open>sub in s\<close>.\<close>

fun contains :: "pystr \<Rightarrow> pystr \<Rightarrow> bool" where
  "contains [] sub = (sub = [])"
| "contains (c # cs) sub = (startswith (c # cs) sub \<or> contains cs sub)"

text \<open>\<open>s.find(sub)\<close>: the index of the first occurrence, or \<open>-1\<close>.\<close>

fun py_find :: "pystr \<Rightarrow> pystr \<Rightarrow> int" where
  "py_find [] sub = (if sub = [] then 0 else -1)"
| "py_find (c # cs) sub =
     (if startswith (c # cs) sub then 0
      else (let i = py_find cs sub in if i = -1 then -1 else i + 1))"

text \<open>\<open>s.split(':', 1)[1]\<close>, for a string that contains the separator.\<close>

definition after_first :: "nat \<Rightarrow> pystr \<Rightarrow> pystr" where
  "after_first d s = drop 1 (dropWhile (\<lambda>c. c \<noteq> d) s)"

section \<open>Regular expressions\<close>

text \<open>
  The fragment of Python's \<open>re\<close> that the patterns of the program use, with the
  backtracking semantics of the library: a matcher returns every way to match, in the order
  in which the backtracking search would try them, so the first element is the match that
  \<open>re\<close> reports. All matching is under \<open>re.IGNORECASE\<close>; \<open>.\<close> matches everything but
  a newline.
\<close>

datatype atom = Lit nat | Digit | Space | AnyChar | OneOf "atom list"

fun atom_ok :: "pylib \<Rightarrow> atom \<Rightarrow> nat \<Rightarrow> bool" where
  "atom_ok L (Lit p) c = re_ieq L p c"
| "atom_ok L Digit c = re_d L c"
| "atom_ok L Space c = re_s L c"
| "atom_ok L AnyChar c = (c \<noteq> 10)"
| "atom_ok L (OneOf as) c = list_ex (\<lambda>a. atom_ok L a c) as"

datatype regex =
    Eps
  | Atom atom
  | Seq regex regex
  | Alt regex regex
  | Star regex
  | LazyStar regex
  | Group regex

text \<open>Derived forms: \<open>r?\<close>, \<open>r+\<close>, \<open>r{n}\<close>, a literal string, \<open>r1|...|rn\<close>.\<close>

definition Opt :: "regex \<Rightarrow> regex" where
  "Opt r = Alt r Eps"

definition Plus :: "regex \<Rightarrow> regex" where
  "Plus r = Seq r (Star r)"

fun Rep :: "nat \<Rightarrow> regex \<Rightarrow> regex" where
  "Rep 0 r = Eps"
| "Rep (Suc n) r = Seq r (Rep n r)"

fun lit :: "pystr \<Rightarrow> regex" where
  "lit [] = Eps"
| "lit (c # cs) = Seq (Atom (Lit c)) (lit cs)"

fun alts :: "regex list \<Rightarrow> regex" where
  "alts [] = Eps"
| "alts [r] = r"
| "alts (r # rs) = Alt r (alts rs)"

fun seqs :: "regex list \<Rightarrow> regex" where
  "seqs [] = Eps"
| "seqs [r] = r"
| "seqs (r # rs) = Seq r (seqs rs)"

text \<open>
  A matching state: the rest of the text, and what group 1 captured so far. The first
  argument of the two star functions bounds the iterations by the length of the rest; an
  iteration that consumes nothing is not repeated.
\<close>

type_synonym mstate = "pystr \<times> pystr option"

fun star_greedy :: "nat \<Rightarrow> (mstate \<Rightarrow> mstate list) \<Rightarrow> mstate \<Rightarrow> mstate list" where
  "star_greedy 0 f st = [st]"
| "star_greedy (Suc n) f st =
     concat (map (\<lambda>st'. if length (fst st') < length (fst st) then star_greedy n f st' else [])
                 (f st)) @ [st]"

fun star_lazy :: "nat \<Rightarrow> (mstate \<Rightarrow> mstate list) \<Rightarrow> mstate \<Rightarrow> mstate list" where
  "star_lazy 0 f st = [st]"
| "star_lazy (Suc n) f st =
     st # concat (map (\<lambda>st'. if length (fst st') < length (fst st) then star_lazy n f st' else [])
                      (f st))"

fun ms :: "pylib \<Rightarrow> regex \<Rightarrow> mstate \<Rightarrow> mstate list" where
  "ms L Eps st = [st]"
| "ms L (Atom a) st =
     (case fst st of [] \<Rightarrow> [] | c # cs \<Rightarrow> if atom_ok L a c then [(cs, snd st)] else [])"
| "ms L (Seq r1 r2) st = concat (map (ms L r2) (ms L r1 st))"
| "ms L (Alt r1 r2) st = ms L r1 st @ ms L r2 st"
| "ms L (Star r) st = star_greedy (length (fst st)) (ms L r) st"
| "ms L (LazyStar r) st = star_lazy (length (fst st)) (ms L r) st"
| "ms L (Group r) st =
     map (\<lambda>st'. (fst st', Some (take (length (fst st) - length (fst st')) (fst st))))
         (ms L r st)"

text \<open>
  \<open>re.search\<close>: the leftmost start at which the pattern matches; the result is the
  number of characters before the match and the state at its end.
\<close>

fun search :: "pylib \<Rightarrow> regex \<Rightarrow> pystr \<Rightarrow> (nat \<times> mstate) option" where
  "search L r [] = (case ms L r ([], None) of [] \<Rightarrow> None | st # _ \<Rightarrow> Some (0, st))"
| "search L r (c # cs) =
     (case ms L r (c # cs, None) of
        st # _ \<Rightarrow> Some (0, st)
      | [] \<Rightarrow> (case search L r cs of None \<Rightarrow> None | Some (k, st) \<Rightarrow> Some (Suc k, st)))"

text \<open>
  \<open>re.finditer\<close>: the successive non-overlapping matches, left to right, each as
  (start, end, group 1). After a match that consumed nothing the scan moves one character
  on.
\<close>

function finditer :: "pylib \<Rightarrow> regex \<Rightarrow> nat \<Rightarrow> pystr \<Rightarrow> (nat \<times> nat \<times> pystr option) list" where
  "finditer L r off s =
     (case search L r s of
        None \<Rightarrow> []
      | Some (k, st) \<Rightarrow>
          (let e = length s - length (fst st) in
           (off + k, off + e, snd st) #
           (if k < e then finditer L r (off + e) (drop e s)
            else if k < length s then finditer L r (off + Suc k) (drop (Suc k) s)
            else [])))"
  by pat_completeness auto
termination
  by (relation "measure (\<lambda>(L, r, off, s). length s)") auto

text \<open>\<open>re.findall\<close> for a pattern with one group: the text of group 1 of every match.\<close>

definition findall :: "pylib \<Rightarrow> regex \<Rightarrow> pystr \<Rightarrow> pystr list" where
  "findall L r s = map (\<lambda>(b, e, g). case g of None \<Rightarrow> [] | Some c \<Rightarrow> c) (finditer L r 0 s)"


section \<open>The extracted structure\<close>

text \<open>
  The dictionary \<open>data_points\<close> of the source, with its six keys, and the dictionary the
  function returns, which has \<open>extraction_quality_score\<close> as well. The metrics dictionary
  is an association list in insertion order.
\<close>

record data_points =
  metrics :: "(string \<times> pystr) list"
  insights :: "pystr list"
  key_findings :: "pystr list"
  financial_highlights :: "pystr list"
  risks :: "pystr list"
  opportunities :: "pystr list"

record extraction = data_points +
  extraction_quality_score :: real

definition empty_data_points :: data_points where
  "empty_data_points = \<lparr> metrics = [], insights = [], key_findings = [],
     financial_highlights = [], risks = [], opportunities = [] \<rparr>"

definition empty_extraction :: extraction where
  "empty_extraction = \<lparr> metrics = [], insights = [], key_findings = [],
     financial_highlights = [], risks = [], opportunities = [],
     extraction_quality_score = 0 \<rparr>"

definition with_score :: "data_points \<Rightarrow> real \<Rightarrow> extraction" where
  "with_score dp q = \<lparr> metrics = metrics dp, insights = insights dp,
     key_findings = key_findings dp, financial_highlights = financial_highlights dp,
     risks = risks dp, opportunities = opportunities dp, extraction_quality_score = q \<rparr>"

text \<open>\<open>d[k] = v\<close> on a dictionary.\<close>

fun dict_set :: "'k \<Rightarrow> 'v \<Rightarrow> ('k \<times> 'v) list \<Rightarrow> ('k \<times> 'v) list" where
  "dict_set k v [] = [(k, v)]"
| "dict_set k v ((k', v') # kvs) =
     (if k' = k then (k, v) # kvs else (k', v') # dict_set k v kvs)"

datatype category = Insights | Key_findings | Financial_highlights | Risks | Opportunities

fun get_list :: "category \<Rightarrow> data_points \<Rightarrow> pystr list" where
  "get_list Insights dp = insights dp"
| "get_list Key_findings dp = key_findings dp"
| "get_list Financial_highlights dp = financial_highlights dp"
| "get_list Risks dp = risks dp"
| "get_list Opportunities dp = opportunities dp"

text \<open>\<open>data_points[section].append(x)\<close>.\<close>

fun append_to :: "category \<Rightarrow> pystr \<Rightarrow> data_points \<Rightarrow> data_points" where
  "append_to Insights x dp = dp\<lparr>insights := insights dp @ [x]\<rparr>"
| "append_to Key_findings x dp = dp\<lparr>key_findings := key_findings dp @ [x]\<rparr>"
| "append_to Financial_highlights x dp =
     dp\<lparr>financial_highlights := financial_highlights dp @ [x]\<rparr>"
| "append_to Risks x dp = dp\<lparr>risks := risks dp @ [x]\<rparr>"
| "append_to Opportunities x dp = dp\<lparr>opportunities := opportunities dp @ [x]\<rparr>"

section \<open>The 200-word limit\<close>

definition truncation_marker :: pystr where
  "truncation_marker = py ''... [truncated to 200 words]''"

definition truncate_summary :: "pylib \<Rightarrow> pystr \<Rightarrow> pystr" where
  "truncate_summary L summary_text =
     (let words = py_split L summary_text in
      if length words > 200 then join (py '' '') (take 200 words) @ truncation_marker
      else summary_text)"

section \<open>Metric patterns\<close>

definition ch :: "char \<Rightarrow> nat" where
  "ch c = of_char c"

text \<open>\<^verbatim>\<open>(\$[\d,]+\.?\d*[BMK]?)\<close>\<close>

definition money :: regex where
  "money = Group (seqs [Atom (Lit (ch CHR ''$'')), Plus (Atom (OneOf [Digit, Lit (ch CHR '','')])),
     Opt (Atom (Lit (ch CHR ''.''))), Star (Atom Digit),
     Opt (Atom (OneOf [Lit (ch CHR ''B''), Lit (ch CHR ''M''), Lit (ch CHR ''K'')]))])"

text \<open>\<^verbatim>\<open>(\d+(?:,\d{3})*(?:\.\d{2})?)\<close>\<close>

definition scaled_number :: regex where
  "scaled_number = Group (seqs [Plus (Atom Digit),
     Star (Seq (Atom (Lit (ch CHR '',''))) (Rep 3 (Atom Digit))),
     Opt (Seq (Atom (Lit (ch CHR ''.''))) (Rep 2 (Atom Digit)))])"

text \<open>\<^verbatim>\<open>(?:million|billion|thousand|M|B|K)\<close>\<close>

definition scale_word :: regex where
  "scale_word = alts (map (lit \<circ> py) [''million'', ''billion'', ''thousand'', ''M'', ''B'', ''K''])"

text \<open>\<^verbatim>\<open>(?:l1|...|ln).*?(\$[\d,]+\.?\d*[BMK]?)\<close>\<close>

definition currency_pattern :: "string list \<Rightarrow> regex" where
  "currency_pattern labels =
     seqs [alts (map (lit \<circ> py) labels), LazyStar (Atom AnyChar), money]"

text \<open>\<^verbatim>\<open>(?:l1|...|ln).*?(\d+(?:,\d{3})*(?:\.\d{2})?)\s*(?:million|billion|thousand|M|B|K)\<close>\<close>

definition scaled_pattern :: "string list \<Rightarrow> regex" where
  "scaled_pattern labels =
     seqs [alts (map (lit \<circ> py) labels), LazyStar (Atom AnyChar), scaled_number,
           Star (Atom Space), scale_word]"

definition financial_patterns :: "(string \<times> regex list) list" where
  "financial_patterns =
    [(''revenue'', [currency_pattern [''revenue'', ''sales'', ''total revenue''],
                    scaled_pattern [''revenue'', ''sales'']]),
     (''operating_income'', [currency_pattern [''operating income'', ''operating profit'', ''ebit''],
                    scaled_pattern [''operating income'', ''operating profit'']]),
     (''net_income'', [currency_pattern [''net income'', ''net profit'', ''net earnings''],
                    scaled_pattern [''net income'', ''net profit'']]),
     (''cash'', [currency_pattern [''cash'', ''cash equivalents''],
                    scaled_pattern [''cash'', ''cash equivalents'']])]"

text \<open>
  The inner loop over the patterns of one metric: the first pattern with a match gives
  \<open>matches[0]\<close>, and the loop breaks.
\<close>

fun first_match :: "pylib \<Rightarrow> regex list \<Rightarrow> pystr \<Rightarrow> pystr option" where
  "first_match L [] t = None"
| "first_match L (p # ps) t =
     (case findall L p t of [] \<Rightarrow> first_match L ps t | m # _ \<Rightarrow> Some m)"

text \<open>The outer loop over the metric names.\<close>

fun extract_metrics ::
  "pylib \<Rightarrow> (string \<times> regex list) list \<Rightarrow> pystr \<Rightarrow> (string \<times> pystr) list \<Rightarrow> (string \<times> pystr) list"
where
  "extract_metrics L [] t m = m"
| "extract_metrics L ((metric_name, patterns) # rest) t m =
     extract_metrics L rest t
       (case first_match L patterns t of None \<Rightarrow> m | Some v \<Rightarrow> dict_set metric_name v m)"


section \<open>AnalysisRepository: the section-aware line loop\<close>

definition is_bullet :: "pystr \<Rightarrow> bool" where
  "is_bullet line = (startswith line (py ''-'') \<or> startswith line [bullet])"

text \<open>The guards of the two bullet branches of the loop body, in the order of the source.\<close>

definition primary_guard :: "pystr \<Rightarrow> bool" where
  "primary_guard line = (is_bullet line \<and> length line > 15)"

definition secondary_guard :: "pystr \<Rightarrow> bool" where
  "secondary_guard line = (is_bullet line \<and> length line > 20)"

definition clears_section :: "pystr \<Rightarrow> bool" where
  "clears_section line =
     (startswith line (py ''INVESTMENT RECOMMENDATION'')
      \<or> startswith line (py ''KEY FINANCIAL METRICS'')
      \<or> startswith line (py ''GROWTH & CHANGES''))"

text \<open>The chain of \<open>if\<close>/\<open>elif\<close> that appends \<open>content[:150]\<close> to the current section.\<close>

definition add_to_current :: "category option \<Rightarrow> pystr \<Rightarrow> data_points \<Rightarrow> data_points" where
  "add_to_current current_section content dp =
     (if current_section = Some Insights \<and> length (insights dp) < 5
        then dp\<lparr>insights := insights dp @ [take 150 content]\<rparr>
      else if current_section = Some Key_findings \<and> length (key_findings dp) < 5
        then dp\<lparr>key_findings := key_findings dp @ [take 150 content]\<rparr>
      else if current_section = Some Financial_highlights \<and> length (financial_highlights dp) < 5
        then dp\<lparr>financial_highlights := financial_highlights dp @ [take 150 content]\<rparr>
      else if current_section = Some Risks \<and> length (risks dp) < 5
        then dp\<lparr>risks := risks dp @ [take 150 content]\<rparr>
      else if current_section = Some Opportunities \<and> length (opportunities dp) < 5
        then dp\<lparr>opportunities := opportunities dp @ [take 150 content]\<rparr>
      else dp)"

text \<open>
  The header tests of the loop body, in the order of the \<open>if\<close>/\<open>elif\<close> chain: the section
  that a line sets, if it contains a header.
\<close>

definition header_section :: "pylib \<Rightarrow> pystr \<Rightarrow> category option" where
  "header_section L line =
     (let line_lower = str_lower L line in
      if contains line_lower (py ''total insights:'') then Some Insights
      else if contains line_lower (py ''key findings:'') then Some Key_findings
      else if contains line_lower (py ''financial highlights:'') then Some Financial_highlights
      else if contains line_lower (py ''risk factors:'') then Some Risks
      else if contains line_lower (py ''opportunities:'') then Some Opportunities
      else None)"

text \<open>One iteration of \<open>for line in lines\<close>, on the pair (current section, data points).\<close>

definition process_line ::
  "pylib \<Rightarrow> category option \<times> data_points \<Rightarrow> pystr \<Rightarrow> category option \<times> data_points"
where
  "process_line L st raw =
     (let current_section = fst st; dp = snd st; line = py_strip L raw in
      if line = [] \<or> length line < 5 then st
      else
        case header_section L line of
          Some s \<Rightarrow> (Some s, dp)
        | None \<Rightarrow>
            if clears_section line then (None, dp)
            else if primary_guard line then
              (let content = py_strip L (drop 1 line) in
               if length content > 10
                 then (current_section, add_to_current current_section content dp)
               else st)
            else if secondary_guard line then
              (let content = py_strip L (drop 1 line) in
               if list_ex (chr_isdigit L) content \<and> length (insights dp) < 3
                 then (current_section, dp\<lparr>insights := insights dp @ [take 100 content]\<rparr>)
               else st)
            else st)"

fun scan_lines ::
  "pylib \<Rightarrow> category option \<times> data_points \<Rightarrow> pystr list \<Rightarrow> category option \<times> data_points"
where
  "scan_lines L st [] = st"
| "scan_lines L st (line # lines) = scan_lines L (process_line L st line) lines"

section \<open>AnalysisRepository: the fallback pass\<close>

definition sections :: "(category \<times> string list) list" where
  "sections =
    [(Insights, [''Total Insights:'', ''Insights:'']),
     (Key_findings, [''Key Findings:'', ''Findings:'']),
     (Financial_highlights, [''Financial Highlights:'', ''Highlights:'']),
     (Risks, [''Risk Factors:'', ''Risks:'']),
     (Opportunities, [''Opportunities:''])]"

definition other_headers :: "string list" where
  "other_headers = [''Total Insights:'', ''Key Findings:'', ''Financial Highlights:'',
     ''Risk Factors:'', ''Opportunities:'', ''Investment Recommendation:'']"

text \<open>The loop that finds where the next header starts in the section content.\<close>

fun next_section :: "pylib \<Rightarrow> pystr \<Rightarrow> string list \<Rightarrow> int \<Rightarrow> int" where
  "next_section L section_content [] next_section_idx = next_section_idx"
| "next_section L section_content (other_header # hs) next_section_idx =
     (let other_idx = py_find (str_lower L section_content) (str_lower L (py other_header)) in
      next_section L section_content hs
        (if other_idx \<noteq> -1 \<and> other_idx < next_section_idx then other_idx
         else next_section_idx))"

text \<open>The body of the loop over the lines of one section content.\<close>

definition fallback_line :: "pylib \<Rightarrow> category \<Rightarrow> data_points \<Rightarrow> pystr \<Rightarrow> data_points" where
  "fallback_line L section_name dp raw =
     (let line = py_strip L raw in
      if is_bullet line \<and> length line > 15 then
        (let content = py_strip L (drop 1 line) in
         if length content > 10 \<and> length (get_list section_name dp) < 5
           then append_to section_name (take 150 content) dp
         else dp)
      else if (startswith line (py ''Risk '') \<or> startswith line (py ''Opportunity ''))
              \<and> contains line (py '':'') then
        (let content = py_strip L (after_first (ch CHR '':'') line) in
         if length content > 10 \<and> length (get_list section_name dp) < 5
           then append_to section_name (take 150 content) dp
         else dp)
      else dp)"

fun fallback_lines :: "pylib \<Rightarrow> category \<Rightarrow> data_points \<Rightarrow> pystr list \<Rightarrow> data_points" where
  "fallback_lines L section_name dp [] = dp"
| "fallback_lines L section_name dp (line # lines) =
     fallback_lines L section_name (fallback_line L section_name dp line) lines"

text \<open>The body of \<open>for header in section_headers\<close>.\<close>

definition fallback_header ::
  "pylib \<Rightarrow> pystr \<Rightarrow> category \<Rightarrow> data_points \<Rightarrow> string \<Rightarrow> data_points"
where
  "fallback_header L summary_text section_name dp header =
     (if contains (str_lower L summary_text) (str_lower L (py header)) then
        (let start_idx = py_find (str_lower L summary_text) (str_lower L (py header)) in
         if start_idx \<noteq> -1 then
           (let section_content = drop (nat (start_idx + int (length (py header)))) summary_text;
                next_section_idx =
                  next_section L section_content other_headers (int (length section_content));
                section_content = take (nat next_section_idx) section_content
            in fallback_lines L section_name dp (split_on 10 section_content))
         else dp)
      else dp)"

fun fallback_headers ::
  "pylib \<Rightarrow> pystr \<Rightarrow> category \<Rightarrow> data_points \<Rightarrow> string list \<Rightarrow> data_points"
where
  "fallback_headers L summary_text section_name dp [] = dp"
| "fallback_headers L summary_text section_name dp (header # hs) =
     fallback_headers L summary_text section_name
       (fallback_header L summary_text section_name dp header) hs"

fun fallback_sections ::
  "pylib \<Rightarrow> pystr \<Rightarrow> data_points \<Rightarrow> (category \<times> string list) list \<Rightarrow> data_points"
where
  "fallback_sections L summary_text dp [] = dp"
| "fallback_sections L summary_text dp ((section_name, section_headers) # rest) =
     fallback_sections L summary_text
       (fallback_headers L summary_text section_name dp section_headers) rest"

text \<open>
  \<open>_extract_insights_fallback\<close>. Its body runs string operations on a \<open>str\<close> only,
  none of which raises, so its \<open>except\<close> branch is never entered and the function is total.
\<close>

definition extract_insights_fallback :: "pylib \<Rightarrow> pystr \<Rightarrow> data_points \<Rightarrow> data_points" where
  "extract_insights_fallback L summary_text dp = fallback_sections L summary_text dp sections"

section \<open>AnalysisRepository: the quality score and the whole extraction\<close>

text \<open>
  The score is a Python float; it is modelled by a real number, the sum of the same
  decimal constants.
\<close>

definition extraction_quality :: "data_points \<Rightarrow> real" where
  "extraction_quality dp =
     (if metrics dp \<noteq> [] then 0.2 else 0)
   + (if insights dp \<noteq> [] then 0.15 else 0)
   + (if key_findings dp \<noteq> [] then 0.15 else 0)
   + (if financial_highlights dp \<noteq> [] then 0.15 else 0)
   + (if risks dp \<noteq> [] then 0.15 else 0)
   + (if opportunities dp \<noteq> [] then 0.15 else 0)
   + (if insights dp \<noteq> [] \<and> key_findings dp \<noteq> [] \<and> financial_highlights dp \<noteq> []
         \<and> risks dp \<noteq> [] \<and> opportunities dp \<noteq> [] then 0.05 else 0)"

text \<open>\<open>any(data_points[key] for key in [...])\<close>.\<close>

definition any_findings :: "data_points \<Rightarrow> bool" where
  "any_findings dp = (insights dp \<noteq> [] \<or> key_findings dp \<noteq> [] \<or> financial_highlights dp \<noteq> []
     \<or> risks dp \<noteq> [] \<or> opportunities dp \<noteq> [])"

text \<open>The result of the section-aware pass on the (already truncated) text.\<close>

definition section_pass :: "pylib \<Rightarrow> pystr \<Rightarrow> data_points" where
  "section_pass L summary_text =
     snd (scan_lines L
            (None, empty_data_points\<lparr>metrics := extract_metrics L financial_patterns summary_text []\<rparr>)
            (split_on 10 summary_text))"

text \<open>The body of the \<open>try\<close> block, for an argument that is a \<open>str\<close>.\<close>

definition extract_text :: "pylib \<Rightarrow> pystr \<Rightarrow> extraction" where
  "extract_text L text =
     (let summary_text = truncate_summary L text;
          dp = section_pass L summary_text;
          dp = (if \<not> any_findings dp then extract_insights_fallback L summary_text dp else dp)
      in with_score dp (min (extraction_quality dp) 1.0))"

text \<open>
  The argument is annotated \<open>str\<close>, but Python does not check it: for any other object
  (here \<open>None\<close>) the first statement of the \<open>try\<close> block, \<open>summary_text.split()\<close>, raises
  \<open>AttributeError\<close>. The result of a call is \<open>Inr\<close> of the returned dictionary or \<open>Inl\<close> of
  an exception that reaches the caller.
\<close>

datatype pyarg = PyStr pystr | PyNone

datatype exn = AttributeError

definition extract_try :: "pylib \<Rightarrow> pyarg \<Rightarrow> exn + extraction" where
  "extract_try L summary_text =
     (case summary_text of PyNone \<Rightarrow> Inl AttributeError | PyStr text \<Rightarrow> Inr (extract_text L text))"

definition AnalysisRepository_extract_financial_data_points :: "pylib \<Rightarrow> pyarg \<Rightarrow> exn + extraction" where
  "AnalysisRepository_extract_financial_data_points L summary_text =
     (case extract_try L summary_text of
        Inr data_points \<Rightarrow> Inr data_points
      | Inl e \<Rightarrow> Inr empty_extraction)"


section \<open>UserService: metric patterns\<close>

text \<open>\<^verbatim>\<open>(\d+(?:\.\d+)?%)\<close>\<close>

definition percent :: regex where
  "percent = Group (seqs [Plus (Atom Digit),
     Opt (Seq (Atom (Lit (ch CHR ''.''))) (Plus (Atom Digit))), Atom (Lit (ch CHR ''%''))])"

text \<open>\<^verbatim>\<open>(?:label).*?(\d+(?:\.\d+)?%)\<close> and \<^verbatim>\<open>(?:label).*?(\d+(?:\.\d{2})?)\s*%\<close>\<close>

definition margin_patterns :: "string \<Rightarrow> regex list" where
  "margin_patterns label =
     [seqs [lit (py label), LazyStar (Atom AnyChar), percent],
      seqs [lit (py label), LazyStar (Atom AnyChar),
            Group (seqs [Plus (Atom Digit), Opt (Seq (Atom (Lit (ch CHR ''.''))) (Rep 2 (Atom Digit)))]),
            Star (Atom Space), Atom (Lit (ch CHR ''%''))]]"

definition user_financial_patterns :: "(string \<times> regex list) list" where
  "user_financial_patterns =
    [(''revenue'', [currency_pattern [''revenue'', ''sales'', ''total revenue''],
                    scaled_pattern [''revenue'', ''sales'']]),
     (''operating_income'', [currency_pattern [''operating income'', ''operating profit'', ''ebit''],
                    scaled_pattern [''operating income'', ''operating profit'']]),
     (''net_income'', [currency_pattern [''net income'', ''net profit'', ''net earnings''],
                    scaled_pattern [''net income'', ''net profit'']]),
     (''cash'', [currency_pattern [''cash'', ''cash equivalents''],
                    scaled_pattern [''cash'', ''cash equivalents'']]),
     (''free_cash_flow'', [currency_pattern [''free cash flow'', ''fcf''],
                    scaled_pattern [''free cash flow'', ''fcf'']]),
     (''operating_margin'', margin_patterns ''operating margin''),
     (''net_margin'', margin_patterns ''net margin'')]"

definition change_words :: regex where
  "change_words = alts (map (lit \<circ> py) [''growth'', ''increase'', ''decrease'', ''decline''])"

text \<open>
  \<^verbatim>\<open>(?:labels).*?(?:growth|increase|decrease|decline).*?(\d+(?:\.\d+)?%)\<close> and
  \<^verbatim>\<open>(?:labels).*?(\d+(?:\.\d+)?%)\s*(?:growth|increase|decrease|decline)\<close>
\<close>

definition change_patterns :: "string list \<Rightarrow> regex list" where
  "change_patterns labels =
     [seqs [alts (map (lit \<circ> py) labels), LazyStar (Atom AnyChar), change_words,
            LazyStar (Atom AnyChar), percent],
      seqs [alts (map (lit \<circ> py) labels), LazyStar (Atom AnyChar), percent,
            Star (Atom Space), change_words]]"

definition percentage_patterns :: "(string \<times> regex list) list" where
  "percentage_patterns =
    [(''revenue_change'', change_patterns [''revenue'', ''sales'']),
     (''income_change'', change_patterns [''operating income'', ''net income'', ''profit'']),
     (''growth_rate'',
        [seqs [alts (map (lit \<circ> py) [''growth'', ''yoy'', ''year-over-year'']),
               LazyStar (Atom AnyChar), percent],
         seqs [percent, Star (Atom Space), alts (map (lit \<circ> py) [''growth'', ''yoy''])]])]"

section \<open>UserService: the keyword loops\<close>

text \<open>\<open>any(word in s for word in words)\<close>.\<close>

definition contains_any :: "pystr \<Rightarrow> string list \<Rightarrow> bool" where
  "contains_any s words = list_ex (\<lambda>word. contains s (py word)) words"

text \<open>
  The second marker of this implementation is the three-character string U+00E2 U+20AC
  U+00A2, as the source file has it.
\<close>

definition user_bullet :: "pystr \<Rightarrow> bool" where
  "user_bullet line = (startswith line (py ''-'') \<or> startswith line [226, 8364, 162])"

text \<open>The body of the first loop: insights and key findings.\<close>

definition insight_line :: "pylib \<Rightarrow> data_points \<Rightarrow> pystr \<Rightarrow> data_points" where
  "insight_line L dp raw =
     (let line = py_strip L raw in
      if line = [] \<or> length line < 20 then dp
      else
        let dp =
          (if user_bullet line \<and> length line > 30 \<and> length (insights dp) < 5 then
             (let insight = py_strip L (drop 1 line) in
              if list_ex (chr_isdigit L) insight
                 \<or> contains_any (str_lower L insight)
                      [''revenue'', ''profit'', ''growth'', ''margin'', ''cash'', ''debt'']
                then dp\<lparr>insights := insights dp @ [take 100 insight]\<rparr>
              else dp)
           else dp)
        in
        if contains_any (str_lower L line) [''key finding'', ''highlight'', ''important'', ''critical'']
           \<and> length (key_findings dp) < 3 then
          (if length line > 20 \<and> length line < 200
              \<and> (contains line (py ''$'') \<or> contains line (py ''%'')
                   \<or> contains_any (str_lower L line)
                        [''growth'', ''decline'', ''increase'', ''decrease''])
             then dp\<lparr>key_findings := key_findings dp @ [take 120 line]\<rparr>
           else dp)
        else dp)"

definition financial_keywords :: "string list" where
  "financial_keywords = [''revenue'', ''profit'', ''income'', ''cash'', ''debt'', ''growth'',
     ''decline'', ''increase'', ''decrease'', ''margin'']"

text \<open>The body of the second loop: financial highlights.\<close>

definition highlight_line :: "pylib \<Rightarrow> data_points \<Rightarrow> pystr \<Rightarrow> data_points" where
  "highlight_line L dp raw =
     (let line = py_strip L raw in
      if length (financial_highlights dp) < 3
         \<and> contains_any (str_lower L line) financial_keywords
         \<and> length line > 20 \<and> length line < 200
         \<and> (contains line (py ''$'') \<or> contains line (py ''%''))
         \<and> list_ex (chr_isdigit L) line
        then dp\<lparr>financial_highlights := financial_highlights dp @ [take 120 line]\<rparr>
      else dp)"

definition risk_keywords :: "string list" where
  "risk_keywords = [''risk'', ''uncertainty'', ''challenge'', ''concern'', ''volatility'',
     ''decline'', ''decrease'', ''down'', ''fell'', ''dropped'']"

definition opportunity_keywords :: "string list" where
  "opportunity_keywords = [''opportunity'', ''growth'', ''expansion'', ''increase'', ''up'',
     ''positive'', ''strong'', ''robust'', ''rose'', ''gained'']"

text \<open>The body of the third loop: risks and opportunities.\<close>

definition risk_line :: "pylib \<Rightarrow> data_points \<Rightarrow> pystr \<Rightarrow> data_points" where
  "risk_line L dp raw =
     (let line = py_strip L raw in
      if length line > 20 \<and> length line < 200 then
        (if length (risks dp) < 3 \<and> contains_any (str_lower L line) risk_keywords
           then dp\<lparr>risks := risks dp @ [take 120 line]\<rparr>
         else if length (opportunities dp) < 3
                 \<and> contains_any (str_lower L line) opportunity_keywords
           then dp\<lparr>opportunities := opportunities dp @ [take 120 line]\<rparr>
         else dp)
      else dp)"

text \<open>\<open>for line in lines: body\<close>.\<close>

fun for_lines :: "(data_points \<Rightarrow> pystr \<Rightarrow> data_points) \<Rightarrow> data_points \<Rightarrow> pystr list \<Rightarrow> data_points" where
  "for_lines body dp [] = dp"
| "for_lines body dp (line # lines) = for_lines body (body dp line) lines"

section \<open>UserService: the advanced extraction\<close>

text \<open>
  The patterns of \<open>_advanced_financial_extraction\<close> have no group and the code reads
  \<open>match.group()\<close>, the text of the whole match; here the whole pattern is group 1.
  \<^verbatim>\<open>\$[\d,]+\.?\d*[BMK]?\<close>, \<^verbatim>\<open>\$[\d,]+\.?\d*\<close>,
  \<^verbatim>\<open>[\d,]+\.?\d*\s*(?:million|billion|thousand|M|B|K)\<close>.
\<close>

definition monetary_patterns :: "regex list" where
  "monetary_patterns =
    [money,
     Group (seqs [Atom (Lit (ch CHR ''$'')), Plus (Atom (OneOf [Digit, Lit (ch CHR '','')])),
                  Opt (Atom (Lit (ch CHR ''.''))), Star (Atom Digit)]),
     Group (seqs [Plus (Atom (OneOf [Digit, Lit (ch CHR '','')])),
                  Opt (Atom (Lit (ch CHR ''.''))), Star (Atom Digit), Star (Atom Space), scale_word])]"

text \<open>\<^verbatim>\<open>\d+(?:\.\d+)?%\<close> and \<^verbatim>\<open>\d+(?:\.\d+)?\s*percent\<close>.\<close>

definition percent_patterns :: "regex list" where
  "percent_patterns =
    [percent,
     Group (seqs [Plus (Atom Digit), Opt (Seq (Atom (Lit (ch CHR ''.''))) (Plus (Atom Digit))),
                  Star (Atom Space), lit (py ''percent'')])]"

text \<open>\<open>text[max(0, match.start() - 50) : min(len(text), match.end() + 50)].lower()\<close>\<close>

definition match_context :: "pylib \<Rightarrow> pystr \<Rightarrow> nat \<Rightarrow> nat \<Rightarrow> pystr" where
  "match_context L text b e =
     (let start = b - 50; end = min (length text) (e + 50)
      in str_lower L (take (end - start) (drop start text)))"

definition set_if_absent :: "string \<Rightarrow> pystr \<Rightarrow> (string \<times> pystr) list \<Rightarrow> (string \<times> pystr) list" where
  "set_if_absent k v m = (if map_of m k = None then dict_set k v m else m)"

definition group1 :: "pystr option \<Rightarrow> pystr" where
  "group1 g = (case g of None \<Rightarrow> [] | Some v \<Rightarrow> v)"

text \<open>The body of the loop over the matches of a monetary pattern.\<close>

definition monetary_match ::
  "pylib \<Rightarrow> pystr \<Rightarrow> (string \<times> pystr) list \<Rightarrow> nat \<times> nat \<times> pystr option \<Rightarrow> (string \<times> pystr) list"
where
  "monetary_match L text m mt =
     (let v = group1 (snd (snd mt));
          context = match_context L text (fst mt) (fst (snd mt)) in
      if contains_any context [''revenue'', ''sales'', ''income''] then set_if_absent ''revenue'' v m
      else if contains_any context [''profit'', ''earnings'', ''net income'']
        then set_if_absent ''net_income'' v m
      else if contains_any context [''cash'', ''liquidity''] then set_if_absent ''cash'' v m
      else if contains_any context [''debt'', ''liability'', ''borrowing'']
        then set_if_absent ''debt'' v m
      else m)"

text \<open>The body of the loop over the matches of a percentage pattern.\<close>

definition percent_match ::
  "pylib \<Rightarrow> pystr \<Rightarrow> (string \<times> pystr) list \<Rightarrow> nat \<times> nat \<times> pystr option \<Rightarrow> (string \<times> pystr) list"
where
  "percent_match L text m mt =
     (let v = group1 (snd (snd mt));
          context = match_context L text (fst mt) (fst (snd mt)) in
      if contains_any context [''margin'', ''profitability''] then set_if_absent ''gross_margin'' v m
      else if contains_any context [''growth'', ''increase'', ''decrease'']
        then set_if_absent ''growth_rate'' v m
      else m)"

text \<open>\<open>for pattern in patterns: for match in re.finditer(pattern, text, re.IGNORECASE): body\<close>\<close>

fun for_matches ::
  "pylib \<Rightarrow> ((string \<times> pystr) list \<Rightarrow> nat \<times> nat \<times> pystr option \<Rightarrow> (string \<times> pystr) list)
   \<Rightarrow> regex list \<Rightarrow> pystr \<Rightarrow> (string \<times> pystr) list \<Rightarrow> (string \<times> pystr) list"
where
  "for_matches L body [] text m = m"
| "for_matches L body (pattern # patterns) text m =
     for_matches L body patterns text (foldl body m (finditer L pattern 0 text))"

text \<open>\<open>re.findall(r'\d+(?:,\d{3})*(?:\.\d{2})?', line)\<close>\<close>

definition numbers_in :: "pylib \<Rightarrow> pystr \<Rightarrow> pystr list" where
  "numbers_in L line = findall L scaled_number line"

text \<open>The bodies of the two line loops of the advanced extraction.\<close>

definition advanced_highlight_line :: "pylib \<Rightarrow> data_points \<Rightarrow> pystr \<Rightarrow> data_points" where
  "advanced_highlight_line L dp raw =
     (let line = py_strip L raw in
      if length line > 10 \<and> length line < 200
         \<and> list_ex (chr_isdigit L) line
         \<and> contains_any (str_lower L line)
              [''revenue'', ''sales'', ''profit'', ''income'', ''cash'', ''debt'', ''margin'',
               ''growth'', ''earnings'']
         \<and> numbers_in L line \<noteq> []
         \<and> (contains line (py ''$'') \<or> contains line (py ''%'')
              \<or> contains_any (str_lower L line)
                   [''million'', ''billion'', ''thousand'', ''M'', ''B'', ''K''])
        then dp\<lparr>financial_highlights := financial_highlights dp @ [take 150 line]\<rparr>
      else dp)"

definition advanced_insight_line :: "pylib \<Rightarrow> data_points \<Rightarrow> pystr \<Rightarrow> data_points" where
  "advanced_insight_line L dp raw =
     (let line = py_strip L raw in
      if length line > 30 \<and> length line < 200
         \<and> length (numbers_in L line) \<ge> 2
         \<and> contains_any (str_lower L line)
              [''revenue'', ''profit'', ''growth'', ''margin'', ''cash'', ''debt'', ''earnings'',
               ''income'']
        then dp\<lparr>insights := insights dp @ [take 150 line]\<rparr>
      else dp)"

text \<open>
  \<open>_advanced_financial_extraction\<close>. On a \<open>str\<close> nothing in its body raises, so its
  \<open>except\<close> branch is never entered.
\<close>

definition advanced_financial_extraction :: "pylib \<Rightarrow> pystr \<Rightarrow> data_points \<Rightarrow> data_points" where
  "advanced_financial_extraction L text existing_data =
     (let m = for_matches L (monetary_match L text) monetary_patterns text (metrics existing_data);
          m = for_matches L (percent_match L text) percent_patterns text m;
          dp = existing_data\<lparr>metrics := m\<rparr>;
          lines = split_on 10 text;
          dp = for_lines (advanced_highlight_line L) dp lines
      in for_lines (advanced_insight_line L) dp lines)"

section \<open>UserService: the whole extraction\<close>

definition user_quality :: "data_points \<Rightarrow> real" where
  "user_quality dp =
     (if metrics dp \<noteq> [] then 0.5 else 0)
   + (if insights dp \<noteq> [] then 0.2 else 0)
   + (if financial_highlights dp \<noteq> [] then 0.2 else 0)
   + (if risks dp \<noteq> [] \<or> opportunities dp \<noteq> [] then 0.1 else 0)"

text \<open>\<open>data_points[key] = list(set(data_points[key]))[:5]\<close> for the five keys.\<close>

definition dedup :: "pylib \<Rightarrow> data_points \<Rightarrow> data_points" where
  "dedup L dp = dp\<lparr> insights := take 5 (set_iter L (insights dp)),
     key_findings := take 5 (set_iter L (key_findings dp)),
     financial_highlights := take 5 (set_iter L (financial_highlights dp)),
     risks := take 5 (set_iter L (risks dp)),
     opportunities := take 5 (set_iter L (opportunities dp)) \<rparr>"

text \<open>The data points before the clean-up, on the (already truncated) text.\<close>

definition user_passes :: "pylib \<Rightarrow> pystr \<Rightarrow> data_points" where
  "user_passes L summary_text =
     (let m = extract_metrics L user_financial_patterns summary_text [];
          m = extract_metrics L percentage_patterns summary_text m;
          dp = empty_data_points\<lparr>metrics := m\<rparr>;
          lines = split_on 10 summary_text;
          dp = for_lines (insight_line L) dp lines;
          dp = for_lines (highlight_line L) dp lines;
          dp = for_lines (risk_line L) dp lines
      in if length (metrics dp) < 5 then advanced_financial_extraction L summary_text dp else dp)"

definition user_extract_text :: "pylib \<Rightarrow> pystr \<Rightarrow> extraction" where
  "user_extract_text L text =
     (let summary_text = truncate_summary L text;
          dp = dedup L (user_passes L summary_text)
      in with_score dp (min (user_quality dp) 1.0))"

definition user_extract_try :: "pylib \<Rightarrow> pyarg \<Rightarrow> exn + extraction" where
  "user_extract_try L summary_text =
     (case summary_text of PyNone \<Rightarrow> Inl AttributeError
      | PyStr text \<Rightarrow> Inr (user_extract_text L text))"

definition UserService_extract_financial_data_points :: "pylib \<Rightarrow> pyarg \<Rightarrow> exn + extraction" where
  "UserService_extract_financial_data_points L summary_text =
     (case user_extract_try L summary_text of
        Inr data_points \<Rightarrow> Inr data_points
      | Inl e \<Rightarrow> Inr empty_extraction)"

section \<open>AnalysisRepository: storing the analysis\<close>

text \<open>
  \<open>AnalysisOutput\<close> has the keys of the extraction, the summary and the (empty) list of
  charts; the stored record has the output (key \<open>output\<close>, here \<open>out\<close>) and the
  adjusted confidence score.
\<close>

record analysis_output = extraction +
  summary :: pystr
  charts :: "pystr list"

record analysis_data =
  out :: analysis_output
  confidence_score :: real

text \<open>
  \<open>create_analysis_result\<close>. The result of the database lookup for an existing analysis
  is an argument; the insertion into the collections, which does not change the record
  built here, is left out.
\<close>

definition create_analysis_result ::
  "pylib \<Rightarrow> analysis_data option \<Rightarrow> pystr \<Rightarrow> real \<Rightarrow> exn + analysis_data" where
  "create_analysis_result L existing_analysis summary_text confidence =
     (case existing_analysis of
        Some a \<Rightarrow> Inr a
      | None \<Rightarrow>
          (case AnalysisRepository_extract_financial_data_points L (PyStr summary_text) of
             Inl e \<Rightarrow> Inl e
           | Inr extracted_data \<Rightarrow>
               Inr \<lparr> out = \<lparr> metrics = metrics extracted_data,
                       insights = insights extracted_data,
                       key_findings = key_findings extracted_data,
                       financial_highlights = financial_highlights extracted_data,
                       risks = risks extracted_data,
                       opportunities = opportunities extracted_data,
                       extraction_quality_score = extraction_quality_score extracted_data,
                       summary = summary_text, charts = [] \<rparr>,
                     confidence_score =
                       min (confidence + extraction_quality_score extracted_data * 0.1) 1.0 \<rparr>))"

section \<open>Bounds on the lists\<close>

text \<open>At most five entries, each of at most \<open>n\<close> characters.\<close>

definition capped :: "nat \<Rightarrow> pystr list \<Rightarrow> bool" where
  "capped n xs = (length xs \<le> 5 \<and> (\<forall>x \<in> set xs. length x \<le> n))"

definition all_capped :: "'a data_points_scheme \<Rightarrow> bool" where
  "all_capped dp = (capped 150 (insights dp) \<and> capped 150 (key_findings dp)
     \<and> capped 150 (financial_highlights dp) \<and> capped 150 (risks dp)
     \<and> capped 150 (opportunities dp))"

definition all_short :: "nat \<Rightarrow> pystr list \<Rightarrow> bool" where
  "all_short n xs = (\<forall>x \<in> set xs. length x \<le> n)"

text \<open>The entry lengths that the user-service implementation keeps.\<close>

definition lists_short :: "'a data_points_scheme \<Rightarrow> bool" where
  "lists_short dp = (all_short 150 (insights dp) \<and> all_short 120 (key_findings dp)
     \<and> all_short 150 (financial_highlights dp) \<and> all_short 120 (risks dp)
     \<and> all_short 120 (opportunities dp))"

text \<open>The five lists of findings, in the order of the source.\<close>

definition findings :: "'a data_points_scheme \<Rightarrow> pystr list list" where
  "findings dp = [insights dp, key_findings dp, financial_highlights dp, risks dp, opportunities dp]"

section \<open>Captured values and the scanned text\<close>



section \<open>Example texts\<close>

text \<open>A recognised header followed by the same bullet twice.\<close>

definition dup_text :: pystr where
  "dup_text = py ''Key Findings:'' @ [10] @ py ''- Revenue grew strongly''
     @ [10] @ py ''- Revenue grew strongly''"

text \<open>A header that only the fallback pass recognises.\<close>

definition fb_text :: pystr where
  "fb_text = py ''Insights:'' @ [10] @ py ''- Strong insight with growth''"

text \<open>A risk bullet whose content has 131 characters.\<close>

definition long_risk :: pystr where
  "long_risk = py ''Regulatory changes in the primary market could reduce operating margins substantially over the next fiscal year and delay expansion''"

definition long_risk_text :: pystr where
  "long_risk_text = py ''Risk Factors:'' @ [10] @ py ''- '' @ long_risk"

text \<open>A text of 201 words.\<close>

definition words201 :: pystr where
  "words201 = join (py '' '') (replicate 201 (py ''w''))"

text \<open>A revenue figure, and a sales figure on a later line.\<close>

definition revenue_text :: pystr where
  "revenue_text = py ''Revenue: $500M'' @ [10] @ py ''Sales grew to $600M''"

text \<open>A revenue figure that only the second pattern of the metric matches.\<close>

definition scaled_text :: pystr where
  "scaled_text = py ''Revenue was 500 million''"


text \<open>The two revenue phrases after 200 other words.\<close>

definition late_text :: pystr where
  "late_text = concat (replicate 200 (py ''w '')) @ revenue_text"

section \<open>Evaluation on concrete texts\<close>

lemmas line_eval = process_line_def header_section_def Let_def py_strip_def basic_lib_def py_space_def
  ascii_lower_def primary_guard_def secondary_guard_def is_bullet_def startswith_def
  clears_section_def add_to_current_def empty_data_points_def bullet_def py_def

lemmas pattern_defs = financial_patterns_def user_financial_patterns_def percentage_patterns_def
  currency_pattern_def scaled_pattern_def margin_patterns_def change_patterns_def money_def
  scaled_number_def scale_word_def percent_def change_words_def monetary_patterns_def
  percent_patterns_def Opt_def Plus_def py_def

section \<open>The line loop: reachability of the bullet branches\<close>

lemma secondary_implies_primary: "secondary_guard line \<Longrightarrow> primary_guard line"
  by (simp add: secondary_guard_def primary_guard_def)

lemma add_to_current_None: "add_to_current None content dp = dp"
  by (simp add: add_to_current_def)

lemma process_line_None: "snd (process_line L (None, dp) raw) = dp"
  by (simp add: process_line_def Let_def add_to_current_None secondary_implies_primary
      split: option.splits)

lemma add_to_current_insights:
  "insights (add_to_current sec content dp) \<noteq> insights dp \<Longrightarrow>
   sec = Some Insights \<and> length (insights dp) < 5 \<and>
   insights (add_to_current sec content dp) = insights dp @ [take 150 content]"
  by (auto simp: add_to_current_def split: if_splits)

lemma process_line_insights:
  "insights (snd (process_line L (sec, dp) raw)) \<noteq> insights dp \<Longrightarrow>
   sec = Some Insights \<and> length (insights dp) < 5 \<and>
   insights (snd (process_line L (sec, dp) raw)) =
     insights dp @ [take 150 (py_strip L (drop 1 (py_strip L raw)))]"
  by (auto simp: process_line_def Let_def secondary_implies_primary
      dest: add_to_current_insights split: if_splits option.splits)

text \<open>
  C10. In the line loop of the repository implementation the second bullet branch (guard
  "starts with a bullet marker and is longer than 20 characters", which would append the
  content cut to 100 characters to insights, up to 3 entries) can never run: its guard
  implies the guard of the branch before it. Hence a line met while no section is current
  leaves every list unchanged, and whenever a line changes the insights list it is the
  first branch that did it: the current section is insights, the list had fewer than 5
  entries, and the entry is the content cut to 150 characters.
\<close>

theorem secondary_bullet_branch_unreachable:
  "(secondary_guard line \<longrightarrow> primary_guard line)
   \<and> snd (process_line L (None, dp) raw) = dp
   \<and> (insights (snd (process_line L (sec, dp) raw)) \<noteq> insights dp \<longrightarrow>
        sec = Some Insights \<and> length (insights dp) < 5 \<and>
        insights (snd (process_line L (sec, dp) raw)) =
          insights dp @ [take 150 (py_strip L (drop 1 (py_strip L raw)))])"
  using secondary_implies_primary process_line_None process_line_insights by blast

theorem secondary_bullet_branch_unreachable_witness:
  "secondary_guard (py ''- revenue grew 25% this year'')
   \<and> primary_guard (py ''- revenue grew 25% this year'')
   \<and> snd (process_line basic_lib (None, empty_data_points) (py ''- revenue grew 25% this year''))
       = empty_data_points
   \<and> insights (snd (process_line basic_lib (Some Insights, empty_data_points)
         (py ''- revenue grew 25% this year''))) = [py ''revenue grew 25% this year'']"
proof -
  let ?l = "py ''- revenue grew 25% this year''"
  have g: "secondary_guard ?l"
    by (simp add: secondary_guard_def is_bullet_def startswith_def py_def)
  have i: "insights (snd (process_line basic_lib (Some Insights, empty_data_points) ?l))
             = [py ''revenue grew 25% this year'']"
    by (simp add: line_eval)
  have n: "insights (snd (process_line basic_lib (Some Insights, empty_data_points) ?l))
             \<noteq> insights empty_data_points"
    unfolding i by (simp add: empty_data_points_def py_def)
  from g i n
    secondary_bullet_branch_unreachable [where line = ?l and L = basic_lib
      and dp = empty_data_points and raw = ?l and sec = "Some Insights"]
  show ?thesis by simp
qed


section \<open>The empty text\<close>

lemma set_iter_nil: "set_iter_ok L \<Longrightarrow> set_iter L [] = []"
  by (metis set_iter_ok_def set_empty)

lemma set_iter_ok_basic: "set_iter_ok basic_lib"
  by (simp add: set_iter_ok_def basic_lib_def)

lemma truncate_nil: "truncate_summary L [] = []"
  by (simp add: truncate_summary_def py_split_def)

lemma strip_nil: "py_strip L [] = []"
  by (simp add: py_strip_def)

lemma user_metrics_nil: "extract_metrics L percentage_patterns []
    (extract_metrics L user_financial_patterns [] []) = []"
  by (simp add: pattern_defs findall_def)

lemma insight_line_nil: "insight_line L dp [] = dp"
  by (simp add: insight_line_def strip_nil)

lemma highlight_line_nil: "highlight_line L dp [] = dp"
  by (simp add: highlight_line_def strip_nil)

lemma risk_line_nil: "risk_line L dp [] = dp"
  by (simp add: risk_line_def strip_nil)

lemma adv_highlight_nil: "advanced_highlight_line L dp [] = dp"
  by (simp add: advanced_highlight_line_def strip_nil)

lemma adv_insight_nil: "advanced_insight_line L dp [] = dp"
  by (simp add: advanced_insight_line_def strip_nil)

lemma monetary_nil: "for_matches L body monetary_patterns [] m = m"
  by (simp add: pattern_defs)

lemma percent_nil: "for_matches L body percent_patterns [] m = m"
  by (simp add: pattern_defs)

lemma advanced_nil: "advanced_financial_extraction L [] dp = dp"
  by (simp add: advanced_financial_extraction_def monetary_nil percent_nil adv_highlight_nil
      adv_insight_nil)

lemma user_passes_nil: "user_passes L [] = empty_data_points"
  by (simp add: user_passes_def user_metrics_nil insight_line_nil highlight_line_nil
      risk_line_nil advanced_nil empty_data_points_def)

lemma user_empty_text: "set_iter_ok L \<Longrightarrow> user_extract_text L [] = empty_extraction"
  by (simp add: user_extract_text_def truncate_nil user_passes_nil dedup_def set_iter_nil
      empty_data_points_def empty_extraction_def with_score_def user_quality_def)

lemma repo_metrics_nil: "extract_metrics L financial_patterns [] [] = []"
  by (simp add: pattern_defs findall_def)

lemma process_line_nil: "process_line L st [] = st"
  by (simp add: process_line_def strip_nil)

lemma section_pass_nil: "section_pass L [] = empty_data_points"
  by (simp add: section_pass_def repo_metrics_nil process_line_nil empty_data_points_def)

lemma fallback_line_nil: "fallback_line L c dp [] = dp"
  by (simp add: fallback_line_def strip_nil is_bullet_def startswith_def py_def)

lemma fallback_header_nil: "fallback_header L [] c dp h = dp"
  by (simp add: fallback_header_def Let_def fallback_line_nil)

lemma fallback_headers_nil: "fallback_headers L [] c dp hs = dp"
  by (induction hs) (simp_all add: fallback_header_nil)

lemma fallback_sections_nil: "fallback_sections L [] dp ss = dp"
  by (induction ss) (auto simp: fallback_headers_nil)

lemma repo_empty_text: "extract_text L [] = empty_extraction"
  by (simp add: extract_text_def truncate_nil section_pass_nil extract_insights_fallback_def
      fallback_sections_nil any_findings_def empty_data_points_def empty_extraction_def
      with_score_def extraction_quality_def)

section \<open>Exceptions and the score\<close>

lemma repo_returns: "\<exists>r. AnalysisRepository_extract_financial_data_points L a = Inr r"
  by (simp add: AnalysisRepository_extract_financial_data_points_def split: sum.splits)

lemma user_returns: "\<exists>r. UserService_extract_financial_data_points L a = Inr r"
  by (simp add: UserService_extract_financial_data_points_def split: sum.splits)

lemma quality_nonneg: "0 \<le> extraction_quality dp"
  by (simp add: extraction_quality_def)

lemma user_quality_nonneg: "0 \<le> user_quality dp"
  by (simp add: user_quality_def)

lemma repo_score_text:
  "0 \<le> extraction_quality_score (extract_text L t) \<and> extraction_quality_score (extract_text L t) \<le> 1"
  by (simp add: extract_text_def Let_def with_score_def quality_nonneg)

lemma user_score_text:
  "0 \<le> extraction_quality_score (user_extract_text L t)
   \<and> extraction_quality_score (user_extract_text L t) \<le> 1"
  by (simp add: user_extract_text_def Let_def with_score_def user_quality_nonneg)

lemma repo_score:
  "AnalysisRepository_extract_financial_data_points L a = Inr r \<Longrightarrow>
   0 \<le> extraction_quality_score r \<and> extraction_quality_score r \<le> 1"
  using repo_score_text
  by (auto simp: AnalysisRepository_extract_financial_data_points_def extract_try_def
      empty_extraction_def split: pyarg.splits)

lemma user_score:
  "UserService_extract_financial_data_points L a = Inr r \<Longrightarrow>
   0 \<le> extraction_quality_score r \<and> extraction_quality_score r \<le> 1"
  using user_score_text
  by (auto simp: UserService_extract_financial_data_points_def user_extract_try_def
      empty_extraction_def split: pyarg.splits)

text \<open>
  C1. Both implementations of \<open>extract_financial_data_points\<close> always return a dictionary
  and never let an exception reach the caller; whenever the body of the \<open>try\<close> block raises,
  the result is the all-empty structure with score 0.
\<close>

theorem extraction_never_raises:
  "(\<exists>r. AnalysisRepository_extract_financial_data_points L a = Inr r)
   \<and> (\<exists>r. UserService_extract_financial_data_points L a = Inr r)
   \<and> (extract_try L a = Inl e \<longrightarrow>
        AnalysisRepository_extract_financial_data_points L a = Inr empty_extraction)
   \<and> (user_extract_try L a = Inl e \<longrightarrow>
        UserService_extract_financial_data_points L a = Inr empty_extraction)"
  using repo_returns [of L a] user_returns [of L a]
  by (simp add: AnalysisRepository_extract_financial_data_points_def
      UserService_extract_financial_data_points_def split: sum.splits)

theorem extraction_never_raises_witness:
  "extract_try basic_lib PyNone = Inl AttributeError
   \<and> user_extract_try basic_lib PyNone = Inl AttributeError
   \<and> AnalysisRepository_extract_financial_data_points basic_lib PyNone = Inr empty_extraction
   \<and> UserService_extract_financial_data_points basic_lib PyNone = Inr empty_extraction"
proof -
  have a: "extract_try basic_lib PyNone = Inl AttributeError"
    by (simp add: extract_try_def)
  have b: "user_extract_try basic_lib PyNone = Inl AttributeError"
    by (simp add: user_extract_try_def)
  from a b extraction_never_raises [of basic_lib PyNone AttributeError]
  show ?thesis by simp
qed

text \<open>
  C2. For every argument the score of the result lies between 0 and 1, in both
  implementations, and for the empty string the result is the all-empty structure with
  score 0 (for the user-service implementation, given that \<open>list(set([]))\<close> is empty).
\<close>

theorem score_bounds:
  "(AnalysisRepository_extract_financial_data_points L a = Inr r \<longrightarrow>
      0 \<le> extraction_quality_score r \<and> extraction_quality_score r \<le> 1)
   \<and> (UserService_extract_financial_data_points L a = Inr r' \<longrightarrow>
      0 \<le> extraction_quality_score r' \<and> extraction_quality_score r' \<le> 1)
   \<and> AnalysisRepository_extract_financial_data_points L (PyStr []) = Inr empty_extraction
   \<and> (set_iter_ok L \<longrightarrow>
        UserService_extract_financial_data_points L (PyStr []) = Inr empty_extraction)"
  using repo_score [of L a r] user_score [of L a r']
  by (simp add: AnalysisRepository_extract_financial_data_points_def extract_try_def
      UserService_extract_financial_data_points_def user_extract_try_def repo_empty_text
      user_empty_text)

theorem score_bounds_witness:
  "set_iter_ok basic_lib
   \<and> AnalysisRepository_extract_financial_data_points basic_lib (PyStr []) = Inr empty_extraction
   \<and> UserService_extract_financial_data_points basic_lib (PyStr []) = Inr empty_extraction
   \<and> extraction_quality_score empty_extraction = 0"
  using score_bounds [of basic_lib "PyStr []" empty_extraction empty_extraction]
    set_iter_ok_basic
  by (simp add: empty_extraction_def)


section \<open>Rules for running the repository implementation on a text\<close>

lemmas str_eval = py_def basic_lib_def ascii_lower_def py_space_def startswith_def py_strip_def
  py_split_def bullet_def is_bullet_def

lemma empty_lists:
  "metrics empty_data_points = []" "insights empty_data_points = []"
  "key_findings empty_data_points = []" "financial_highlights empty_data_points = []"
  "risks empty_data_points = []" "opportunities empty_data_points = []"
  by (simp_all add: empty_data_points_def)

lemma fallback_header_eval:
  assumes "contains (str_lower L t) (str_lower L (py h))"
      and "py_find (str_lower L t) (str_lower L (py h)) = i" and "i \<noteq> -1"
      and "drop (nat (i + int (length (py h)))) t = sc"
      and "next_section L sc other_headers (int (length sc)) = n"
      and "fallback_lines L c dp (split_on 10 (take (nat n) sc)) = dp'"
  shows "fallback_header L t c dp h = dp'"
  using assms by (simp add: fallback_header_def Let_def)

lemma fallback_header_skip:
  "\<not> contains (str_lower L t) (str_lower L (py h)) \<Longrightarrow> fallback_header L t c dp h = dp"
  by (simp add: fallback_header_def)

lemma extract_text_eval:
  assumes "truncate_summary L text = t" and "section_pass L t = dp"
      and "(if any_findings dp then dp else extract_insights_fallback L t dp) = dp'"
  shows "extract_text L text = with_score dp' (min (extraction_quality dp') 1)"
  using assms by (auto simp: extract_text_def Let_def)

lemma truncate_short: "length (py_split L t) \<le> 200 \<Longrightarrow> truncate_summary L t = t"
  by (simp add: truncate_summary_def)

lemma repo_on_str:
  "AnalysisRepository_extract_financial_data_points L (PyStr t) = Inr (extract_text L t)"
  by (simp add: AnalysisRepository_extract_financial_data_points_def extract_try_def)

lemma user_on_str:
  "UserService_extract_financial_data_points L (PyStr t) = Inr (user_extract_text L t)"
  by (simp add: UserService_extract_financial_data_points_def user_extract_try_def)

subsection \<open>The text with a repeated bullet\<close>

lemma dup_trunc: "truncate_summary basic_lib dup_text = dup_text"
  by (rule truncate_short) (simp add: dup_text_def str_eval)

lemma dup_lines: "split_on 10 dup_text =
    [py ''Key Findings:'', py ''- Revenue grew strongly'', py ''- Revenue grew strongly'']"
  by (simp add: dup_text_def py_def)

lemma dup_header: "process_line basic_lib (s, dp) (py ''Key Findings:'') = (Some Key_findings, dp)"
  by (simp add: line_eval)

lemma dup_bullet:
  "length (key_findings dp) < 5 \<Longrightarrow>
   process_line basic_lib (Some Key_findings, dp) (py ''- Revenue grew strongly'')
     = (Some Key_findings, dp\<lparr>key_findings := key_findings dp @ [py ''Revenue grew strongly'']\<rparr>)"
  by (simp add: line_eval)

lemma dup_scan:
  "key_findings dp = [] \<Longrightarrow>
   scan_lines basic_lib (None, dp) (split_on 10 dup_text)
     = (Some Key_findings,
        dp\<lparr>key_findings := [py ''Revenue grew strongly'', py ''Revenue grew strongly'']\<rparr>)"
  by (simp add: dup_lines dup_header dup_bullet)

lemma dup_section:
  "section_pass basic_lib dup_text =
     empty_data_points\<lparr>metrics := extract_metrics basic_lib financial_patterns dup_text [],
       key_findings := [py ''Revenue grew strongly'', py ''Revenue grew strongly'']\<rparr>"
  by (simp add: section_pass_def dup_scan empty_lists)

lemma dup_key_findings:
  "key_findings (extract_text basic_lib dup_text)
     = [py ''Revenue grew strongly'', py ''Revenue grew strongly'']"
  by (simp add: extract_text_eval [OF dup_trunc dup_section refl] any_findings_def with_score_def)

subsection \<open>The text with a header of the fallback pass\<close>

lemma fb_trunc: "truncate_summary basic_lib fb_text = fb_text"
  by (rule truncate_short) (simp add: fb_text_def str_eval)

lemma fb_lines: "split_on 10 fb_text = [py ''Insights:'', py ''- Strong insight with growth'']"
  by (simp add: fb_text_def py_def)

lemma fb_scan: "scan_lines basic_lib (None, dp) (split_on 10 fb_text) = (None, dp)"
  by (simp add: fb_lines line_eval)

lemma fb_section: "section_pass basic_lib fb_text
    = empty_data_points\<lparr>metrics := extract_metrics basic_lib financial_patterns fb_text []\<rparr>"
  by (simp add: section_pass_def fb_scan)

lemma fb_skip:
  "h \<in> {''Total Insights:'', ''Key Findings:'', ''Findings:'', ''Financial Highlights:'',
     ''Highlights:'', ''Risk Factors:'', ''Risks:'', ''Opportunities:''} \<Longrightarrow>
   fallback_header basic_lib fb_text c dp h = dp"
  by (rule fallback_header_skip) (auto simp: fb_text_def str_eval)

lemma fb_hit:
  "insights dp = [] \<Longrightarrow>
   fallback_header basic_lib fb_text Insights dp ''Insights:''
     = dp\<lparr>insights := [py ''Strong insight with growth'']\<rparr>"
  apply (rule fallback_header_eval
      [where i = 0 and sc = "[10] @ py ''- Strong insight with growth''" and n = 29])
       apply (simp add: fb_text_def str_eval)
      apply (simp add: fb_text_def str_eval)
     apply simp
    apply (simp add: fb_text_def str_eval)
   apply (simp add: other_headers_def str_eval Let_def)
  apply (simp add: py_def)
  apply (simp add: fallback_line_def str_eval Let_def)
  done

lemma fb_fallback:
  "extract_insights_fallback basic_lib fb_text (empty_data_points\<lparr>metrics := M\<rparr>)
   = empty_data_points\<lparr>metrics := M, insights := [py ''Strong insight with growth'']\<rparr>"
  by (simp add: extract_insights_fallback_def sections_def fb_skip fb_hit empty_lists)

lemma fb_insights: "insights (extract_text basic_lib fb_text) = [py ''Strong insight with growth'']"
  by (simp add: extract_text_eval [OF fb_trunc fb_section refl] any_findings_def empty_lists
      fb_fallback with_score_def)

subsection \<open>The text with a long risk bullet\<close>

lemma long_risk_length: "length long_risk = 131"
  by (simp add: long_risk_def py_def)

lemma long_trunc: "truncate_summary basic_lib long_risk_text = long_risk_text"
  by (rule truncate_short) (simp add: long_risk_text_def long_risk_def str_eval)

lemma long_lines: "split_on 10 long_risk_text = [py ''Risk Factors:'', py ''- '' @ long_risk]"
  by (simp add: long_risk_text_def long_risk_def py_def)

lemma long_header: "process_line basic_lib (s, dp) (py ''Risk Factors:'') = (Some Risks, dp)"
  by (simp add: line_eval)

lemma long_bullet:
  "risks dp = [] \<Longrightarrow>
   process_line basic_lib (Some Risks, dp) (py ''- '' @ long_risk)
     = (Some Risks, dp\<lparr>risks := [long_risk]\<rparr>)"
  by (simp add: long_risk_def line_eval)

lemma long_section:
  "section_pass basic_lib long_risk_text =
     empty_data_points\<lparr>metrics := extract_metrics basic_lib financial_patterns long_risk_text [],
       risks := [long_risk]\<rparr>"
  by (simp add: section_pass_def long_lines long_header long_bullet empty_lists)

lemma long_risks: "risks (extract_text basic_lib long_risk_text) = [long_risk]"
  by (simp add: extract_text_eval [OF long_trunc long_section refl] any_findings_def with_score_def)


section \<open>Bounds on the lists of the repository implementation\<close>

lemma capped_snoc: "capped n xs \<Longrightarrow> length xs < 5 \<Longrightarrow> length x \<le> n \<Longrightarrow> capped n (xs @ [x])"
  by (auto simp: capped_def)

lemma all_capped_add: "all_capped dp \<Longrightarrow> all_capped (add_to_current sec content dp)"
  by (auto simp: all_capped_def add_to_current_def capped_snoc)

lemma all_capped_process_line: "all_capped (snd st) \<Longrightarrow> all_capped (snd (process_line L st raw))"
  by (cases st) (auto simp: process_line_def Let_def secondary_implies_primary all_capped_add
      split: option.splits)

lemma all_capped_scan_lines: "all_capped (snd st) \<Longrightarrow> all_capped (snd (scan_lines L st lines))"
  by (induction lines arbitrary: st) (simp_all add: all_capped_process_line)

lemma all_capped_append_to:
  "all_capped dp \<Longrightarrow> length (get_list c dp) < 5 \<Longrightarrow> length x \<le> 150 \<Longrightarrow>
   all_capped (append_to c x dp)"
  by (cases c) (auto simp: all_capped_def capped_snoc)

lemma all_capped_fallback_line: "all_capped dp \<Longrightarrow> all_capped (fallback_line L c dp raw)"
  by (simp add: fallback_line_def Let_def all_capped_append_to)

lemma all_capped_fallback_lines: "all_capped dp \<Longrightarrow> all_capped (fallback_lines L c dp lines)"
  by (induction lines arbitrary: dp) (simp_all add: all_capped_fallback_line)

lemma all_capped_fallback_header: "all_capped dp \<Longrightarrow> all_capped (fallback_header L t c dp h)"
  by (simp add: fallback_header_def Let_def all_capped_fallback_lines)

lemma all_capped_fallback_headers: "all_capped dp \<Longrightarrow> all_capped (fallback_headers L t c dp hs)"
  by (induction hs arbitrary: dp) (simp_all add: all_capped_fallback_header)

lemma all_capped_fallback_sections: "all_capped dp \<Longrightarrow> all_capped (fallback_sections L t dp ss)"
  by (induction ss arbitrary: dp) (auto simp: all_capped_fallback_headers)

lemma all_capped_section_pass: "all_capped (section_pass L t)"
  unfolding section_pass_def
  by (rule all_capped_scan_lines) (simp add: all_capped_def capped_def empty_data_points_def)

lemma all_capped_with_score: "all_capped dp \<Longrightarrow> all_capped (with_score dp q)"
  by (simp add: all_capped_def with_score_def)

lemma all_capped_extract_text: "all_capped (extract_text L t)"
  by (simp add: extract_text_def Let_def all_capped_with_score all_capped_section_pass
      extract_insights_fallback_def all_capped_fallback_sections)

lemma all_capped_empty: "all_capped empty_extraction"
  by (simp add: all_capped_def capped_def empty_extraction_def)

lemma all_capped_repo:
  "AnalysisRepository_extract_financial_data_points L a = Inr r \<Longrightarrow> all_capped r"
  by (auto simp: AnalysisRepository_extract_financial_data_points_def extract_try_def
      all_capped_empty all_capped_extract_text split: pyarg.splits)

section \<open>Bounds on the lists of the user-service implementation\<close>

lemma for_lines_inv:
  assumes "\<And>dp l. P dp \<Longrightarrow> P (body dp l)" and "P dp"
  shows "P (for_lines body dp ls)"
  using assms(2) by (induction ls arbitrary: dp) (simp_all add: assms(1))

lemma short_insight_line: "lists_short dp \<Longrightarrow> lists_short (insight_line L dp raw)"
  by (auto simp: insight_line_def Let_def lists_short_def all_short_def)

lemma short_highlight_line: "lists_short dp \<Longrightarrow> lists_short (highlight_line L dp raw)"
  by (auto simp: highlight_line_def Let_def lists_short_def all_short_def)

lemma short_risk_line: "lists_short dp \<Longrightarrow> lists_short (risk_line L dp raw)"
  by (auto simp: risk_line_def Let_def lists_short_def all_short_def)

lemma short_adv_highlight: "lists_short dp \<Longrightarrow> lists_short (advanced_highlight_line L dp raw)"
  by (auto simp: advanced_highlight_line_def Let_def lists_short_def all_short_def)

lemma short_adv_insight: "lists_short dp \<Longrightarrow> lists_short (advanced_insight_line L dp raw)"
  by (auto simp: advanced_insight_line_def Let_def lists_short_def all_short_def)

lemma short_metrics_update: "lists_short dp \<Longrightarrow> lists_short (dp\<lparr>metrics := m\<rparr>)"
  by (simp add: lists_short_def)

lemma short_advanced: "lists_short dp \<Longrightarrow> lists_short (advanced_financial_extraction L t dp)"
  by (simp add: advanced_financial_extraction_def Let_def for_lines_inv short_adv_highlight
      short_adv_insight short_metrics_update)

lemma short_empty: "lists_short (empty_data_points\<lparr>metrics := m\<rparr>)"
  by (simp add: lists_short_def all_short_def empty_data_points_def)

lemma short_user_passes: "lists_short (user_passes L t)"
  by (simp add: user_passes_def Let_def for_lines_inv short_insight_line short_highlight_line
      short_risk_line short_advanced short_empty)

lemma all_short_take_iter:
  "set_iter_ok L \<Longrightarrow> all_short n xs \<Longrightarrow> all_short n (take 5 (set_iter L xs))"
  by (auto simp: all_short_def set_iter_ok_def dest!: in_set_takeD)

lemma short_dedup: "set_iter_ok L \<Longrightarrow> lists_short dp \<Longrightarrow> lists_short (dedup L dp)"
  by (simp add: dedup_def lists_short_def all_short_take_iter)

lemma short_user_text: "set_iter_ok L \<Longrightarrow> lists_short (user_extract_text L t)"
  using short_dedup [of L "user_passes L (truncate_summary L t)"]
    short_user_passes [of L "truncate_summary L t"]
  by (simp add: user_extract_text_def Let_def with_score_def lists_short_def)

lemma length_user_text:
  "length (insights (user_extract_text L t)) \<le> 5
   \<and> length (key_findings (user_extract_text L t)) \<le> 5
   \<and> length (financial_highlights (user_extract_text L t)) \<le> 5
   \<and> length (risks (user_extract_text L t)) \<le> 5
   \<and> length (opportunities (user_extract_text L t)) \<le> 5"
  by (simp add: user_extract_text_def Let_def with_score_def dedup_def)

lemma distinct_user_text:
  "set_iter_ok L \<Longrightarrow>
   distinct (insights (user_extract_text L t))
   \<and> distinct (key_findings (user_extract_text L t))
   \<and> distinct (financial_highlights (user_extract_text L t))
   \<and> distinct (risks (user_extract_text L t))
   \<and> distinct (opportunities (user_extract_text L t))"
  by (simp add: user_extract_text_def Let_def with_score_def dedup_def set_iter_ok_def)

lemma short_imp_capped: "lists_short dp \<Longrightarrow> length (insights dp) \<le> 5 \<Longrightarrow>
   length (key_findings dp) \<le> 5 \<Longrightarrow> length (financial_highlights dp) \<le> 5 \<Longrightarrow>
   length (risks dp) \<le> 5 \<Longrightarrow> length (opportunities dp) \<le> 5 \<Longrightarrow> all_capped dp"
  by (fastforce simp: lists_short_def all_short_def all_capped_def capped_def)

lemma lists_short_empty: "lists_short empty_extraction"
  by (simp add: lists_short_def all_short_def empty_extraction_def)

lemma user_bounds:
  assumes "set_iter_ok L" and "UserService_extract_financial_data_points L a = Inr r"
  shows "all_capped r \<and> lists_short r"
proof (cases a)
  case (PyStr t)
  with assms(2) have r: "r = user_extract_text L t"
    by (simp add: user_on_str)
  show ?thesis
    unfolding r using short_user_text [OF assms(1), of t] length_user_text [of L t]
    by (simp add: short_imp_capped)
next
  case PyNone
  with assms(2) have "r = empty_extraction"
    by (simp add: UserService_extract_financial_data_points_def user_extract_try_def)
  then show ?thesis by (simp add: all_capped_empty lists_short_empty)
qed

lemma user_distinct:
  assumes "set_iter_ok L" and "UserService_extract_financial_data_points L a = Inr r"
  shows "distinct (insights r) \<and> distinct (key_findings r)
     \<and> distinct (financial_highlights r) \<and> distinct (risks r) \<and> distinct (opportunities r)"
proof (cases a)
  case (PyStr t)
  with assms(2) have r: "r = user_extract_text L t"
    by (simp add: user_on_str)
  show ?thesis unfolding r by (rule distinct_user_text [OF assms(1)])
next
  case PyNone
  with assms(2) have "r = empty_extraction"
    by (simp add: UserService_extract_financial_data_points_def user_extract_try_def)
  then show ?thesis by (simp add: empty_extraction_def)
qed


section \<open>Length and cardinality of the lists\<close>

text \<open>
  C6, as stated: every entry of financial_highlights, risks and opportunities has at most
  120 characters. The repository implementation cuts every entry at 150 characters, whatever
  the category: for the text \<open>long_risk_text\<close> it returns a risk of 131 characters.
\<close>

theorem list_bounds_counterexample:
  "AnalysisRepository_extract_financial_data_points basic_lib (PyStr long_risk_text)
     = Inr (extract_text basic_lib long_risk_text)
   \<and> risks (extract_text basic_lib long_risk_text) = [long_risk]
   \<and> length long_risk = 131"
  by (simp add: repo_on_str long_risks long_risk_length)

text \<open>
  C6, as amended: in both implementations every list has at most 5 entries and every entry
  has at most 150 characters; in the user-service implementation the entries of
  key_findings, risks and opportunities have at most 120 characters (given that
  \<open>list(set(xs))\<close> lists elements of \<open>xs\<close>).
\<close>

theorem list_bounds:
  "(AnalysisRepository_extract_financial_data_points L a = Inr r \<longrightarrow> all_capped r)
   \<and> (set_iter_ok L \<and> UserService_extract_financial_data_points L a = Inr r' \<longrightarrow>
        all_capped r' \<and> lists_short r')"
  using all_capped_repo [of L a r] user_bounds [of L a r'] by blast

theorem list_bounds_witness:
  "set_iter_ok basic_lib
   \<and> all_capped (extract_text basic_lib long_risk_text)
   \<and> all_capped (user_extract_text basic_lib long_risk_text)
   \<and> lists_short (user_extract_text basic_lib long_risk_text)"
  using list_bounds [of basic_lib "PyStr long_risk_text" "extract_text basic_lib long_risk_text"
      "user_extract_text basic_lib long_risk_text"] set_iter_ok_basic
  by (simp add: repo_on_str user_on_str)

section \<open>Duplicates\<close>

text \<open>
  C8, as stated: every list returned is free of duplicates. The repository implementation
  never removes duplicates: for the text \<open>dup_text\<close>, in which a bullet occurs twice under
  one header, it returns the bullet twice.
\<close>

theorem duplicate_free_counterexample:
  "AnalysisRepository_extract_financial_data_points basic_lib (PyStr dup_text)
     = Inr (extract_text basic_lib dup_text)
   \<and> key_findings (extract_text basic_lib dup_text)
     = [py ''Revenue grew strongly'', py ''Revenue grew strongly'']
   \<and> \<not> distinct (key_findings (extract_text basic_lib dup_text))"
  by (simp add: repo_on_str dup_key_findings)

text \<open>
  C8, as amended: every list returned by the user-service implementation, which rebuilds
  each list from a set, is free of duplicates.
\<close>

theorem duplicate_free_user_service:
  "set_iter_ok L \<and> UserService_extract_financial_data_points L a = Inr r \<longrightarrow>
     distinct (insights r) \<and> distinct (key_findings r) \<and> distinct (financial_highlights r)
     \<and> distinct (risks r) \<and> distinct (opportunities r)"
  using user_distinct [of L a r] by blast

theorem duplicate_free_user_service_witness:
  "set_iter_ok basic_lib
   \<and> distinct (insights (user_extract_text basic_lib dup_text))
   \<and> distinct (key_findings (user_extract_text basic_lib dup_text))
   \<and> distinct (financial_highlights (user_extract_text basic_lib dup_text))
   \<and> distinct (risks (user_extract_text basic_lib dup_text))
   \<and> distinct (opportunities (user_extract_text basic_lib dup_text))"
  using duplicate_free_user_service [of basic_lib "PyStr dup_text"
      "user_extract_text basic_lib dup_text"] set_iter_ok_basic
  by (simp add: user_on_str)

section \<open>When the fallback pass runs\<close>

lemma findings_with_score: "findings (with_score dp q) = findings dp"
  by (simp add: findings_def with_score_def)

lemma any_findings_iff: "any_findings dp \<longleftrightarrow> findings dp \<noteq> [[], [], [], [], []]"
  by (auto simp: any_findings_def findings_def)

text \<open>
  C7. In the repository implementation the fallback pass runs exactly when the
  section-aware pass found nothing in any of the five categories: if that pass found a
  finding, the lists of the result are the lists of that pass, and the fallback contributes
  nothing; otherwise they are the lists that the fallback pass computes from the same text.
\<close>

theorem fallback_iff_no_findings:
  "(findings (section_pass L (truncate_summary L text)) \<noteq> [[], [], [], [], []] \<longrightarrow>
      findings (extract_text L text) = findings (section_pass L (truncate_summary L text)))
   \<and> (findings (section_pass L (truncate_summary L text)) = [[], [], [], [], []] \<longrightarrow>
      findings (extract_text L text)
        = findings (extract_insights_fallback L (truncate_summary L text)
                      (section_pass L (truncate_summary L text))))"
  by (simp add: extract_text_def Let_def findings_with_score any_findings_iff)

lemma dup_findings:
  "findings (section_pass basic_lib (truncate_summary basic_lib dup_text))
     = [[], [py ''Revenue grew strongly'', py ''Revenue grew strongly''], [], [], []]"
  by (simp add: dup_trunc dup_section findings_def empty_lists)

lemma fb_findings:
  "findings (section_pass basic_lib (truncate_summary basic_lib fb_text)) = [[], [], [], [], []]"
  by (simp add: fb_trunc fb_section findings_def empty_lists)

lemma fb_fallback_findings:
  "findings (extract_insights_fallback basic_lib (truncate_summary basic_lib fb_text)
      (section_pass basic_lib (truncate_summary basic_lib fb_text)))
     = [[py ''Strong insight with growth''], [], [], [], []]"
  by (simp add: fb_trunc fb_section fb_fallback findings_def empty_lists)

theorem fallback_iff_no_findings_witness:
  "findings (section_pass basic_lib (truncate_summary basic_lib dup_text))
     = [[], [py ''Revenue grew strongly'', py ''Revenue grew strongly''], [], [], []]
   \<and> findings (extract_text basic_lib dup_text)
     = [[], [py ''Revenue grew strongly'', py ''Revenue grew strongly''], [], [], []]
   \<and> findings (section_pass basic_lib (truncate_summary basic_lib fb_text)) = [[], [], [], [], []]
   \<and> findings (extract_text basic_lib fb_text) = [[py ''Strong insight with growth''], [], [], [], []]"
  using fallback_iff_no_findings [of basic_lib dup_text]
    fallback_iff_no_findings [of basic_lib fb_text]
  by (simp add: dup_findings fb_findings fb_fallback_findings)


section \<open>The rules of the section-aware line loop\<close>

lemma startswith_length:
  assumes "startswith s p" shows "length p \<le> length s"
proof -
  from assms have "length (take (length p) s) = length p"
    by (simp add: startswith_def)
  then show ?thesis by simp
qed

lemma length_py: "length (py s) = length s"
  by (simp add: py_def)

lemma clears_long: "clears_section line \<Longrightarrow> 16 \<le> length line"
  unfolding clears_section_def
  by (elim disjE; drule startswith_length; simp add: length_py)

lemma add_to_current_Some:
  "add_to_current (Some c) x dp =
     (if length (get_list c dp) < 5 then append_to c (take 150 x) dp else dp)"
  by (cases c) (simp_all add: add_to_current_def)

lemma header_line:
  "5 \<le> length (py_strip L raw) \<Longrightarrow> header_section L (py_strip L raw) = Some c \<Longrightarrow>
   process_line L (sec, dp) raw = (Some c, dp)"
  by (cases "py_strip L raw = []") (simp_all add: process_line_def Let_def)

lemma clearing_line:
  "header_section L (py_strip L raw) = None \<Longrightarrow> clears_section (py_strip L raw) \<Longrightarrow>
   process_line L (sec, dp) raw = (None, dp)"
  using clears_long [of "py_strip L raw"]
  by (cases "py_strip L raw = []") (simp_all add: process_line_def Let_def)

lemma startswith_Cons: "startswith s (c # p) \<Longrightarrow> \<exists>s'. s = c # s'"
  by (cases s) (simp_all add: startswith_def)

lemma bullet_not_clearing: "is_bullet line \<Longrightarrow> \<not> clears_section line"
  unfolding is_bullet_def clears_section_def py_def bullet_def
  by (auto dest!: startswith_Cons)

lemma bullet_line:
  assumes "header_section L (py_strip L raw) = None" and "is_bullet (py_strip L raw)"
      and "15 < length (py_strip L raw)"
  shows "process_line L (Some c, dp) raw =
     (Some c, if 10 < length (py_strip L (drop 1 (py_strip L raw))) \<and> length (get_list c dp) < 5
              then append_to c (take 150 (py_strip L (drop 1 (py_strip L raw)))) dp else dp)"
proof -
  have a: "\<not> clears_section (py_strip L raw)"
    using assms(2) by (rule bullet_not_clearing)
  have b: "primary_guard (py_strip L raw)"
    using assms(2,3) by (simp add: primary_guard_def)
  have c: "py_strip L raw \<noteq> []" "\<not> length (py_strip L raw) < 5"
    using assms(3) by auto
  show ?thesis
    by (simp add: process_line_def Let_def assms(1) a b c add_to_current_Some)
qed

lemma header_section_iff:
  "header_section L line \<noteq> None \<longleftrightarrow>
     contains (str_lower L line) (py ''total insights:'')
   \<or> contains (str_lower L line) (py ''key findings:'')
   \<or> contains (str_lower L line) (py ''financial highlights:'')
   \<or> contains (str_lower L line) (py ''risk factors:'')
   \<or> contains (str_lower L line) (py ''opportunities:'')"
  by (simp add: header_section_def Let_def)

text \<open>
  C5, as stated: a line that starts with "INVESTMENT RECOMMENDATION" clears the current
  section. The header tests come first in the loop body: such a line that also contains
  a header substring sets the section of that header instead.
\<close>

theorem section_rules_counterexample:
  "clears_section (py ''INVESTMENT RECOMMENDATION: opportunities: none'')
   \<and> process_line basic_lib (Some Insights, empty_data_points)
         (py ''INVESTMENT RECOMMENDATION: opportunities: none'')
       = (Some Opportunities, empty_data_points)"
  by (simp add: line_eval)

text \<open>
  C5, as amended. For a line, stripped of surrounding white space: if it has at least 5
  characters and contains a header substring (case-insensitively), it sets the current
  section to that of the first such header in the order total insights, key findings,
  financial highlights, risk factors, opportunities, and nothing is appended; if it contains
  no header substring and starts with "INVESTMENT RECOMMENDATION", "KEY FINANCIAL METRICS" or
  "GROWTH & CHANGES", it clears the current section; if it contains no header substring,
  begins with a bullet marker and is longer than 15 characters while a section is current,
  its content (marker stripped, cut to 150 characters) is appended to the list of that
  section exactly when the content is longer than 10 characters and the list has fewer
  than 5 entries.
\<close>

theorem section_rules:
  "(5 \<le> length (py_strip L raw) \<and> header_section L (py_strip L raw) = Some c \<longrightarrow>
      process_line L (sec, dp) raw = (Some c, dp))
   \<and> (header_section L (py_strip L raw) = None \<and> clears_section (py_strip L raw) \<longrightarrow>
      process_line L (sec, dp) raw = (None, dp))
   \<and> (header_section L (py_strip L raw) = None \<and> is_bullet (py_strip L raw)
        \<and> 15 < length (py_strip L raw) \<longrightarrow>
      process_line L (Some c, dp) raw =
        (Some c, if 10 < length (py_strip L (drop 1 (py_strip L raw)))
                    \<and> length (get_list c dp) < 5
                 then append_to c (take 150 (py_strip L (drop 1 (py_strip L raw)))) dp else dp))
   \<and> (header_section L (py_strip L raw) \<noteq> None \<longleftrightarrow>
        contains (str_lower L (py_strip L raw)) (py ''total insights:'')
      \<or> contains (str_lower L (py_strip L raw)) (py ''key findings:'')
      \<or> contains (str_lower L (py_strip L raw)) (py ''financial highlights:'')
      \<or> contains (str_lower L (py_strip L raw)) (py ''risk factors:'')
      \<or> contains (str_lower L (py_strip L raw)) (py ''opportunities:''))"
  using header_line [of L raw c sec dp] clearing_line [of L raw sec dp]
    bullet_line [of L raw c dp] header_section_iff [of L "py_strip L raw"]
  by blast

theorem section_rules_witness:
  "process_line basic_lib (None, empty_data_points) (py ''Key Findings:'')
     = (Some Key_findings, empty_data_points)
   \<and> process_line basic_lib (Some Risks, empty_data_points) (py ''KEY FINANCIAL METRICS'')
     = (None, empty_data_points)
   \<and> process_line basic_lib (Some Key_findings, empty_data_points) (py ''- Revenue grew strongly'')
     = (Some Key_findings, append_to Key_findings (py ''Revenue grew strongly'') empty_data_points)"
proof -
  have h1: "5 \<le> length (py_strip basic_lib (py ''Key Findings:''))
      \<and> header_section basic_lib (py_strip basic_lib (py ''Key Findings:'')) = Some Key_findings"
    by (simp add: line_eval)
  have h2: "header_section basic_lib (py_strip basic_lib (py ''KEY FINANCIAL METRICS'')) = None
      \<and> clears_section (py_strip basic_lib (py ''KEY FINANCIAL METRICS''))"
    by (simp add: line_eval)
  have h3: "header_section basic_lib (py_strip basic_lib (py ''- Revenue grew strongly'')) = None
      \<and> is_bullet (py_strip basic_lib (py ''- Revenue grew strongly''))
      \<and> 15 < length (py_strip basic_lib (py ''- Revenue grew strongly''))"
    by (simp add: line_eval)
  have h4: "py_strip basic_lib (drop 1 (py_strip basic_lib (py ''- Revenue grew strongly'')))
      = py ''Revenue grew strongly''"
    by (simp add: line_eval)
  from h1 h2 h3
    section_rules [of basic_lib "py ''Key Findings:''" Key_findings None empty_data_points]
    section_rules [of basic_lib "py ''KEY FINANCIAL METRICS''" Key_findings "Some Risks"
      empty_data_points]
    section_rules [of basic_lib "py ''- Revenue grew strongly''" Key_findings None
      empty_data_points]
  show ?thesis
    unfolding h4 by (simp add: length_py empty_lists)
qed

section \<open>The stored summary\<close>

lemma replicate_numeral: "replicate (numeral k) x = x # replicate (pred_numeral k) x"
  by (simp add: numeral_eq_Suc)

lemma words201_split: "py_split basic_lib words201 = replicate 201 (py ''w'')"
  by (simp add: words201_def str_eval replicate_numeral)

text \<open>
  C3. The code evaluated at a text of 201 words: \<open>create_analysis_result\<close> stores the
  text unchanged, all 201 words and no marker, although the extraction has cut its own copy
  of the text to 200 words and the marker.
\<close>

theorem stored_summary_untruncated:
  "(case create_analysis_result basic_lib None words201 0.85 of
      Inr r \<Rightarrow> summary (out r) = words201
    | Inl e \<Rightarrow> False)
   \<and> length (py_split basic_lib words201) = 201
   \<and> truncate_summary basic_lib words201
       = join (py '' '') (replicate 200 (py ''w'')) @ truncation_marker"
  by (simp add: create_analysis_result_def repo_on_str truncate_summary_def words201_split)

section \<open>Captures of the matcher\<close>







declare finditer.simps [simp del]


lemma finditer_unfold:
  "search L r s = Some (k, st) \<Longrightarrow>
   finditer L r off s =
     (off + k, off + (length s - length (fst st)), snd st) #
     (if k < length s - length (fst st)
        then finditer L r (off + (length s - length (fst st))) (drop (length s - length (fst st)) s)
      else if k < length s then finditer L r (off + Suc k) (drop (Suc k) s)
      else [])"
  by (subst finditer.simps) (simp add: Let_def del: finditer.simps)

lemma finditer_none: "search L r s = None \<Longrightarrow> finditer L r off s = []"
  by (subst finditer.simps) simp




section \<open>The metrics of the two implementations\<close>

lemma map_of_dict_set: "map_of (dict_set k v m) k' = (if k' = k then Some v else map_of m k')"
  by (induction m) auto


lemma extract_metrics_append:
  "extract_metrics L (ps1 @ ps2) t m = extract_metrics L ps2 t (extract_metrics L ps1 t m)"
  by (induction ps1 arbitrary: m) auto

lemma extract_metrics_other:
  "name \<notin> fst ` set ps \<Longrightarrow> map_of (extract_metrics L ps t m) name = map_of m name"
  by (induction ps arbitrary: m) (auto simp: map_of_dict_set split: option.splits)

lemma map_of_extract_metrics:
  "distinct (map fst ps) \<Longrightarrow> (name, pats) \<in> set ps \<Longrightarrow>
   map_of (extract_metrics L ps t m) name =
     (case first_match L pats t of None \<Rightarrow> map_of m name | Some v \<Rightarrow> Some v)"
proof (induction ps arbitrary: m)
  case Nil
  then show ?case by simp
next
  case (Cons p ps)
  obtain n q where p: "p = (n, q)" by (cases p)
  show ?case
  proof (cases "n = name")
    case True
    with Cons.prems p have q: "q = pats" and notin: "name \<notin> fst ` set ps"
      by (auto simp: rev_image_eqI)
    show ?thesis
      by (simp add: p True q extract_metrics_other [OF notin] map_of_dict_set
          split: option.splits)
  next
    case False
    with Cons.prems p have "(name, pats) \<in> set ps" "distinct (map fst ps)" by auto
    from Cons.IH [OF this(2) this(1)] False show ?thesis
      by (simp add: p map_of_dict_set split: option.splits)
  qed
qed

lemma first_match_filter:
  "first_match L ps t =
     (case filter (\<lambda>p. findall L p t \<noteq> []) ps of
        [] \<Rightarrow> None | p # _ \<Rightarrow> Some (hd (findall L p t)))"
  by (induction ps) (auto split: list.splits)


lemma metrics_add_to_current: "metrics (add_to_current sec content dp) = metrics dp"
  by (simp add: add_to_current_def)

lemma metrics_process_line: "metrics (snd (process_line L st raw)) = metrics (snd st)"
  by (simp add: process_line_def Let_def metrics_add_to_current split: option.splits)

lemma metrics_scan_lines: "metrics (snd (scan_lines L st lines)) = metrics (snd st)"
  by (induction lines arbitrary: st) (simp_all add: metrics_process_line)

lemma metrics_append_to: "metrics (append_to c x dp) = metrics dp"
  by (cases c) simp_all

lemma metrics_fallback_line: "metrics (fallback_line L c dp raw) = metrics dp"
  by (simp add: fallback_line_def Let_def metrics_append_to)

lemma metrics_fallback_lines: "metrics (fallback_lines L c dp lines) = metrics dp"
  by (induction lines arbitrary: dp) (simp_all add: metrics_fallback_line)

lemma metrics_fallback_header: "metrics (fallback_header L t c dp h) = metrics dp"
  by (simp add: fallback_header_def Let_def metrics_fallback_lines)

lemma metrics_fallback_headers: "metrics (fallback_headers L t c dp hs) = metrics dp"
  by (induction hs arbitrary: dp) (simp_all add: metrics_fallback_header)

lemma metrics_fallback_sections: "metrics (fallback_sections L t dp ss) = metrics dp"
  by (induction ss arbitrary: dp) (auto simp: metrics_fallback_headers)

lemma metrics_section_pass: "metrics (section_pass L t) = extract_metrics L financial_patterns t []"
  by (simp add: section_pass_def metrics_scan_lines)

lemma metrics_extract_text:
  "metrics (extract_text L text)
     = extract_metrics L financial_patterns (truncate_summary L text) []"
  by (simp add: extract_text_def Let_def with_score_def extract_insights_fallback_def
      metrics_fallback_sections metrics_section_pass)

lemma metrics_for_lines:
  assumes "\<And>dp line. metrics (body dp line) = metrics dp"
  shows "metrics (for_lines body dp lines) = metrics dp"
  by (induction lines arbitrary: dp) (simp_all add: assms)

lemma metrics_insight_line: "metrics (insight_line L dp raw) = metrics dp"
  by (simp add: insight_line_def Let_def)

lemma metrics_highlight_line: "metrics (highlight_line L dp raw) = metrics dp"
  by (simp add: highlight_line_def Let_def)

lemma metrics_risk_line: "metrics (risk_line L dp raw) = metrics dp"
  by (simp add: risk_line_def Let_def)

lemma metrics_adv_highlight: "metrics (advanced_highlight_line L dp raw) = metrics dp"
  by (simp add: advanced_highlight_line_def Let_def)

lemma metrics_adv_insight: "metrics (advanced_insight_line L dp raw) = metrics dp"
  by (simp add: advanced_insight_line_def Let_def)

lemma metrics_advanced:
  "metrics (advanced_financial_extraction L t dp) =
     for_matches L (percent_match L t) percent_patterns t
       (for_matches L (monetary_match L t) monetary_patterns t (metrics dp))"
  by (simp add: advanced_financial_extraction_def Let_def metrics_for_lines
      metrics_adv_highlight metrics_adv_insight)

lemma metrics_user_passes:
  "metrics (user_passes L t) =
     (let m = extract_metrics L (user_financial_patterns @ percentage_patterns) t [] in
      if length m < 5
        then for_matches L (percent_match L t) percent_patterns t
               (for_matches L (monetary_match L t) monetary_patterns t m)
      else m)"
  by (simp add: user_passes_def Let_def metrics_for_lines metrics_insight_line
      metrics_highlight_line metrics_risk_line metrics_advanced extract_metrics_append)

lemma metrics_user_extract_text:
  "metrics (user_extract_text L text) = metrics (user_passes L (truncate_summary L text))"
  by (simp add: user_extract_text_def Let_def with_score_def dedup_def)

lemma foldl_inv:
  assumes "\<And>m x. P m \<Longrightarrow> x \<in> set xs \<Longrightarrow> P (f m x)" and "P m"
  shows "P (foldl f m xs)"
  using assms by (induction xs arbitrary: m) simp_all

lemma for_matches_inv:
  assumes "\<And>m p mt. P m \<Longrightarrow> p \<in> set ps \<Longrightarrow> mt \<in> set (finditer L p 0 t) \<Longrightarrow> P (body m mt)"
      and "P m"
  shows "P (for_matches L body ps t m)"
  using assms
proof (induction ps arbitrary: m)
  case Nil
  then show ?case by simp
next
  case (Cons p ps)
  have a: "P (foldl body m (finditer L p 0 t))"
  proof (rule foldl_inv [where P = P])
    fix m' x assume "P m'" "x \<in> set (finditer L p 0 t)"
    then show "P (body m' x)" using Cons.prems(1) [of m' p x] by simp
  next
    show "P m" by (rule Cons.prems(2))
  qed
  have "P (for_matches L body ps t (foldl body m (finditer L p 0 t)))"
  proof (rule Cons.IH)
    fix m' q mt assume "P m'" "q \<in> set ps" "mt \<in> set (finditer L q 0 t)"
    then show "P (body m' mt)" using Cons.prems(1) [of m' q mt] by simp
  next
    show "P (foldl body m (finditer L p 0 t))" by (rule a)
  qed
  then show ?case by simp
qed

lemma set_if_absent_keeps:
  "map_of m k = Some v \<Longrightarrow> map_of (set_if_absent k' v' m) k = Some v"
  by (auto simp: set_if_absent_def map_of_dict_set)

lemma monetary_match_keeps:
  "map_of m k = Some v \<Longrightarrow> map_of (monetary_match L t m mt) k = Some v"
  by (simp add: monetary_match_def Let_def set_if_absent_keeps)

lemma percent_match_keeps:
  "map_of m k = Some v \<Longrightarrow> map_of (percent_match L t m mt) k = Some v"
  by (simp add: percent_match_def Let_def set_if_absent_keeps)

lemma advanced_keeps:
  assumes "map_of m k = Some v"
  shows "map_of (for_matches L (percent_match L t) percent_patterns t
           (for_matches L (monetary_match L t) monetary_patterns t m)) k = Some v"
proof -
  have "map_of (for_matches L (monetary_match L t) monetary_patterns t m) k = Some v"
    by (rule for_matches_inv [where P = "\<lambda>m. map_of m k = Some v"])
       (simp_all add: monetary_match_keeps assms)
  then show ?thesis
    by (rule for_matches_inv [where P = "\<lambda>m. map_of m k = Some v", rotated])
       (simp add: percent_match_keeps)
qed

lemma user_passes_keeps:
  "map_of (extract_metrics L (user_financial_patterns @ percentage_patterns) t []) k = Some v \<Longrightarrow>
   map_of (metrics (user_passes L t)) k = Some v"
  by (simp add: metrics_user_passes Let_def advanced_keeps)










lemma distinct_repo_names: "distinct (map fst financial_patterns)"
  by (simp add: financial_patterns_def)

lemma distinct_user_names: "distinct (map fst (user_financial_patterns @ percentage_patterns))"
  by (simp add: user_financial_patterns_def percentage_patterns_def)

lemma first_match_split:
  "(\<forall>q \<in> set ps1. findall L q t = []) \<Longrightarrow> findall L p t = v # vs \<Longrightarrow>
   first_match L (ps1 @ p # ps2) t = Some v"
  by (induction ps1) simp_all

lemma first_match_none: "(\<forall>q \<in> set ps. findall L q t = []) \<Longrightarrow> first_match L ps t = None"
  by (induction ps) simp_all

lemma repo_metric:
  assumes "(name, pats) \<in> set financial_patterns"
  shows "map_of (metrics (extract_text L text)) name = first_match L pats (truncate_summary L text)"
  using map_of_extract_metrics [OF distinct_repo_names assms, of L "truncate_summary L text" "[]"]
  by (simp add: metrics_extract_text split: option.splits)

lemma user_metric:
  assumes "(name, pats) \<in> set (user_financial_patterns @ percentage_patterns)"
      and "first_match L pats (truncate_summary L text) = Some v"
  shows "map_of (metrics (user_extract_text L text)) name = Some v"
proof -
  have "map_of (extract_metrics L (user_financial_patterns @ percentage_patterns)
          (truncate_summary L text) []) name = Some v"
    using map_of_extract_metrics [OF distinct_user_names assms(1), of L "truncate_summary L text" "[]"]
      assms(2) by simp
  then show ?thesis
    unfolding metrics_user_extract_text by (rule user_passes_keeps)
qed

section \<open>Metrics of the example texts\<close>

lemmas ms_eval = currency_pattern_def scaled_pattern_def money_def
  scaled_number_def scale_word_def Opt_def Plus_def py_def ch_def basic_lib_def ascii_lower_def
  ascii_digit_def py_space_def

lemmas re_eval = findall_def finditer.simps ms_eval

lemma revenue_findall:
  "findall basic_lib (currency_pattern [''revenue'', ''sales'', ''total revenue'']) revenue_text
     = [py ''$500M'', py ''$600M'']"
  by (simp add: revenue_text_def re_eval)



lemma join_replicate:
  "ws \<noteq> [] \<Longrightarrow> join sep (replicate n w @ ws) = concat (replicate n (w @ sep)) @ join sep ws"
proof (induction n)
  case 0
  then show ?case by simp
next
  case (Suc n)
  then obtain x xs where "replicate n w @ ws = x # xs"
    by (cases "replicate n w @ ws") auto
  with Suc show ?case by simp
qed

lemma length_concat_replicate: "length (concat (replicate n xs)) = n * length xs"
  by (induction n) simp_all

lemma finditer_hit:
  assumes "search L r (pre @ rest) = Some (k, (rest, g))" and "k < length pre"
  shows "finditer L r off (pre @ rest)
     = (off + k, off + length pre, g) # finditer L r (off + length pre) rest"
  using assms(2) by (simp add: finditer_unfold [OF assms(1)])


lemma skip_space:
  "ms basic_lib (currency_pattern [''revenue'', ''sales'', ''total revenue'']) (32 # s, None) = []"
  by (simp add: ms_eval)



lemma revenue_words: "length (py_split basic_lib revenue_text) = 6"
  by (simp add: revenue_text_def str_eval)


lemma scaled_words: "length (py_split basic_lib scaled_text) = 4"
  by (simp add: scaled_text_def str_eval)

lemma scaled_trunc: "truncate_summary basic_lib scaled_text = scaled_text"
  by (rule truncate_short) (simp add: scaled_words)

lemma scaled_findall_currency:
  "findall basic_lib (currency_pattern [''revenue'', ''sales'', ''total revenue'']) scaled_text = []"
  by (simp add: scaled_text_def re_eval)

lemma scaled_findall_scaled:
  "findall basic_lib (scaled_pattern [''revenue'', ''sales'']) scaled_text = [py ''500'']"
  by (simp add: scaled_text_def re_eval)

lemma revenue_findall_cash:
  "findall basic_lib (currency_pattern [''cash'', ''cash equivalents'']) revenue_text = []"
  "findall basic_lib (scaled_pattern [''cash'', ''cash equivalents'']) revenue_text = []"
  by (simp_all add: revenue_text_def re_eval)

lemma revenue_in_repo:
  "(''revenue'', [currency_pattern [''revenue'', ''sales'', ''total revenue''],
                  scaled_pattern [''revenue'', ''sales'']]) \<in> set financial_patterns"
  by (simp add: financial_patterns_def)

lemma cash_in_repo:
  "(''cash'', [currency_pattern [''cash'', ''cash equivalents''],
               scaled_pattern [''cash'', ''cash equivalents'']]) \<in> set financial_patterns"
  by (simp add: financial_patterns_def)


lemma revenue_in_user_base:
  "(''revenue'', [currency_pattern [''revenue'', ''sales'', ''total revenue''],
                  scaled_pattern [''revenue'', ''sales'']]) \<in> set user_financial_patterns"
  by (simp add: user_financial_patterns_def)







section \<open>The first pattern and the first occurrence\<close>

lemma search_skip:
  assumes "\<And>s. ms L r (a # s, None) = []" and "\<And>s. ms L r (b # s, None) = []"
  shows "search L r (concat (replicate n [a, b]) @ s)
     = (case search L r s of None \<Rightarrow> None | Some (k, st) \<Rightarrow> Some (2 * n + k, st))"
  by (induction n) (simp_all add: assms split: option.splits)

lemma skip_w:
  "ms basic_lib (currency_pattern [''revenue'', ''sales'', ''total revenue'']) (119 # s, None) = []"
  "ms basic_lib (scaled_pattern [''revenue'', ''sales'']) (119 # s, None) = []"
  "ms basic_lib (scaled_pattern [''revenue'', ''sales'']) (32 # s, None) = []"
  by (simp_all add: ms_eval)

lemma late_split:
  "py_split basic_lib late_text = replicate 200 (py ''w'')
     @ [py ''Revenue:'', py ''$500M'', py ''Sales'', py ''grew'', py ''to'', py ''$600M'']"
  by (simp add: late_text_def revenue_text_def str_eval replicate_numeral)

lemma late_trunc:
  "truncate_summary basic_lib late_text
     = join (py '' '') (replicate 200 (py ''w'')) @ truncation_marker"
  by (simp add: truncate_summary_def late_split)

lemma late_cut:
  "join (py '' '') (replicate 200 (py ''w'')) @ truncation_marker
     = concat (replicate 199 [119, 32]) @ py ''w... [truncated to 200 words]''"
proof -
  have "replicate 200 (py ''w'') = replicate 199 (py ''w'') @ [py ''w'']"
    using replicate_Suc [of 199 "py ''w''"] by (simp add: replicate_append_same)
  then show ?thesis
    by (simp add: join_replicate truncation_marker_def py_def)
qed

lemma late_none_currency:
  "findall basic_lib (currency_pattern [''revenue'', ''sales'', ''total revenue''])
     (join (py '' '') (replicate 200 (py ''w'')) @ truncation_marker) = []"
proof -
  let ?r = "currency_pattern [''revenue'', ''sales'', ''total revenue'']"
  have "search basic_lib ?r (py ''w... [truncated to 200 words]'') = None"
    by (simp add: ms_eval)
  then have "search basic_lib ?r
      (concat (replicate 199 [119, 32]) @ py ''w... [truncated to 200 words]'') = None"
    by (simp add: search_skip [of basic_lib ?r 119 32] skip_w skip_space)
  then show ?thesis
    unfolding late_cut findall_def by (simp add: finditer_none)
qed

lemma late_none_scaled:
  "findall basic_lib (scaled_pattern [''revenue'', ''sales''])
     (join (py '' '') (replicate 200 (py ''w'')) @ truncation_marker) = []"
proof -
  let ?r = "scaled_pattern [''revenue'', ''sales'']"
  have "search basic_lib ?r (py ''w... [truncated to 200 words]'') = None"
    by (simp add: ms_eval)
  then have "search basic_lib ?r
      (concat (replicate 199 [119, 32]) @ py ''w... [truncated to 200 words]'') = None"
    by (simp add: search_skip [of basic_lib ?r 119 32] skip_w)
  then show ?thesis
    unfolding late_cut findall_def by (simp add: finditer_none)
qed

lemma late_revenue: "map_of (metrics (extract_text basic_lib late_text)) ''revenue'' = None"
  by (simp add: repo_metric [OF revenue_in_repo] late_trunc late_none_currency late_none_scaled)

lemma late_findall:
  "findall basic_lib (currency_pattern [''revenue'', ''sales'', ''total revenue'']) late_text
     = [py ''$500M'', py ''$600M'']"
proof -
  let ?r = "currency_pattern [''revenue'', ''sales'', ''total revenue'']"
  let ?pre = "concat (replicate 200 [119, 32::nat])"
  let ?m = "py ''Revenue: $500M''"
  let ?rest = "10 # py ''Sales grew to $600M''"
  have t: "late_text = (?pre @ ?m) @ ?rest"
    by (simp add: late_text_def revenue_text_def py_def)
  have s1: "search basic_lib ?r (?m @ ?rest) = Some (0, (?rest, Some (py ''$500M'')))"
    by (simp add: ms_eval)
  have s2: "search basic_lib ?r ((?pre @ ?m) @ ?rest) = Some (400, (?rest, Some (py ''$500M'')))"
    using search_skip [of basic_lib ?r 119 32 200 "?m @ ?rest"] s1
    by (simp add: skip_w skip_space)
  have s3: "finditer basic_lib ?r off ?rest = [(off + 1, off + 20, Some (py ''$600M''))]" for off
    by (simp add: re_eval)
  have "finditer basic_lib ?r 0 ((?pre @ ?m) @ ?rest)
      = [(0 + 400, 0 + length (?pre @ ?m), Some (py ''$500M'')),
         (0 + length (?pre @ ?m) + 1, 0 + length (?pre @ ?m) + 20, Some (py ''$600M''))]"
    using finditer_hit [OF s2, of 0] s3 [of "0 + length (?pre @ ?m)"]
    by (simp add: length_py length_concat_replicate)
  then show ?thesis
    unfolding t by (simp add: findall_def)
qed

lemma late_words: "length (py_split basic_lib late_text) = 206"
  by (simp add: late_split)

text \<open>
  C4, as stated: the first pattern that has a match decides the metric, and an input with
  "Revenue: $500M" and a later "Sales grew to $600M" has the revenue \<open>$500M\<close>. The
  patterns run on the text after the cut to 200 words: in \<open>late_text\<close> the two phrases
  come after 200 other words, the first pattern of the revenue has the matches \<open>$500M\<close>
  and \<open>$600M\<close> in the input, and the result has no revenue.
\<close>

theorem first_pattern_first_occurrence_counterexample:
  "AnalysisRepository_extract_financial_data_points basic_lib (PyStr late_text)
     = Inr (extract_text basic_lib late_text)
   \<and> late_text = concat (replicate 200 (py ''w ''))
        @ py ''Revenue: $500M'' @ [10] @ py ''Sales grew to $600M''
   \<and> findall basic_lib (currency_pattern [''revenue'', ''sales'', ''total revenue'']) late_text
        = [py ''$500M'', py ''$600M'']
   \<and> map_of (metrics (extract_text basic_lib late_text)) ''revenue'' = None"
  by (simp add: repo_on_str late_findall late_revenue) (simp add: late_text_def revenue_text_def)

text \<open>
  C4, as amended. For every metric name of either implementation, with its patterns in the
  order of the source: if no pattern before \<open>p\<close> matches anywhere in the scanned text and
  \<open>p\<close> has the matches \<open>v # vs\<close> there, left to right, the metric is \<open>v\<close>, whatever
  the later patterns \<open>ps2\<close> and the later occurrences \<open>vs\<close> are; in the repository
  implementation a metric none of whose patterns matches in the scanned text is absent. The
  scanned text is the input when the input has at most 200 words, and otherwise its first
  200 words joined by single spaces, followed by the marker.
\<close>

theorem first_pattern_first_occurrence:
  "(AnalysisRepository_extract_financial_data_points L (PyStr text) = Inr r
      \<and> (name, ps1 @ p # ps2) \<in> set financial_patterns
      \<and> (\<forall>q \<in> set ps1. findall L q (truncate_summary L text) = [])
      \<and> findall L p (truncate_summary L text) = v # vs
    \<longrightarrow> map_of (metrics r) name = Some v)
   \<and> (AnalysisRepository_extract_financial_data_points L (PyStr text) = Inr r
      \<and> (name, ps) \<in> set financial_patterns
      \<and> (\<forall>q \<in> set ps. findall L q (truncate_summary L text) = [])
    \<longrightarrow> map_of (metrics r) name = None)
   \<and> (UserService_extract_financial_data_points L (PyStr text) = Inr r'
      \<and> (name, ps1 @ p # ps2) \<in> set (user_financial_patterns @ percentage_patterns)
      \<and> (\<forall>q \<in> set ps1. findall L q (truncate_summary L text) = [])
      \<and> findall L p (truncate_summary L text) = v # vs
    \<longrightarrow> map_of (metrics r') name = Some v)
   \<and> (length (py_split L text) \<le> 200 \<longrightarrow> truncate_summary L text = text)
   \<and> (200 < length (py_split L text) \<longrightarrow>
        truncate_summary L text
          = join (py '' '') (take 200 (py_split L text)) @ truncation_marker)"
proof (intro conjI impI)
  assume a: "AnalysisRepository_extract_financial_data_points L (PyStr text) = Inr r
      \<and> (name, ps1 @ p # ps2) \<in> set financial_patterns
      \<and> (\<forall>q \<in> set ps1. findall L q (truncate_summary L text) = [])
      \<and> findall L p (truncate_summary L text) = v # vs"
  then have r: "r = extract_text L text" by (simp add: repo_on_str)
  from a have "first_match L (ps1 @ p # ps2) (truncate_summary L text) = Some v"
    by (simp add: first_match_split)
  with a show "map_of (metrics r) name = Some v"
    unfolding r using repo_metric [of name "ps1 @ p # ps2" L "text"] by simp
next
  assume a: "AnalysisRepository_extract_financial_data_points L (PyStr text) = Inr r
      \<and> (name, ps) \<in> set financial_patterns
      \<and> (\<forall>q \<in> set ps. findall L q (truncate_summary L text) = [])"
  then have r: "r = extract_text L text" by (simp add: repo_on_str)
  from a have "first_match L ps (truncate_summary L text) = None"
    by (simp add: first_match_none)
  with a show "map_of (metrics r) name = None"
    unfolding r using repo_metric [of name ps L "text"] by simp
next
  assume a: "UserService_extract_financial_data_points L (PyStr text) = Inr r'
      \<and> (name, ps1 @ p # ps2) \<in> set (user_financial_patterns @ percentage_patterns)
      \<and> (\<forall>q \<in> set ps1. findall L q (truncate_summary L text) = [])
      \<and> findall L p (truncate_summary L text) = v # vs"
  then have r: "r' = user_extract_text L text" by (simp add: user_on_str)
  from a have f: "first_match L (ps1 @ p # ps2) (truncate_summary L text) = Some v"
    by (simp add: first_match_split)
  from a have m: "(name, ps1 @ p # ps2) \<in> set (user_financial_patterns @ percentage_patterns)"
    by simp
  show "map_of (metrics r') name = Some v"
    unfolding r by (rule user_metric [OF m f])
next
  assume "length (py_split L text) \<le> 200"
  then show "truncate_summary L text = text" by (rule truncate_short)
next
  assume "200 < length (py_split L text)"
  then show "truncate_summary L text
      = join (py '' '') (take 200 (py_split L text)) @ truncation_marker"
    by (simp add: truncate_summary_def)
qed

theorem first_pattern_first_occurrence_witness:
  "length (py_split basic_lib revenue_text) \<le> 200
   \<and> findall basic_lib (currency_pattern [''revenue'', ''sales'', ''total revenue''])
       revenue_text = [py ''$500M'', py ''$600M'']
   \<and> map_of (metrics (extract_text basic_lib revenue_text)) ''revenue'' = Some (py ''$500M'')
   \<and> map_of (metrics (user_extract_text basic_lib revenue_text)) ''revenue'' = Some (py ''$500M'')
   \<and> map_of (metrics (extract_text basic_lib revenue_text)) ''cash'' = None
   \<and> findall basic_lib (currency_pattern [''revenue'', ''sales'', ''total revenue''])
       scaled_text = []
   \<and> map_of (metrics (extract_text basic_lib scaled_text)) ''revenue'' = Some (py ''500'')
   \<and> map_of (metrics (user_extract_text basic_lib scaled_text)) ''revenue'' = Some (py ''500'')
   \<and> 200 < length (py_split basic_lib late_text)
   \<and> truncate_summary basic_lib late_text
       = join (py '' '') (replicate 200 (py ''w'')) @ truncation_marker"
proof -
  note a = first_pattern_first_occurrence [of basic_lib revenue_text
      "extract_text basic_lib revenue_text"
      "''revenue''" "[]" "currency_pattern [''revenue'', ''sales'', ''total revenue'']"
      "[scaled_pattern [''revenue'', ''sales'']]" "py ''$500M''" "[py ''$600M'']"
      "[currency_pattern [''revenue'', ''sales'', ''total revenue''],
        scaled_pattern [''revenue'', ''sales'']]"
      "user_extract_text basic_lib revenue_text"]
  note b = first_pattern_first_occurrence [of basic_lib revenue_text
      "extract_text basic_lib revenue_text"
      "''cash''" "[]" "currency_pattern [''cash'', ''cash equivalents'']"
      "[scaled_pattern [''cash'', ''cash equivalents'']]" "[]" "[]"
      "[currency_pattern [''cash'', ''cash equivalents''],
        scaled_pattern [''cash'', ''cash equivalents'']]"
      "user_extract_text basic_lib revenue_text"]
  note c = first_pattern_first_occurrence [of basic_lib scaled_text
      "extract_text basic_lib scaled_text"
      "''revenue''" "[currency_pattern [''revenue'', ''sales'', ''total revenue'']]"
      "scaled_pattern [''revenue'', ''sales'']" "[]" "py ''500''" "[]"
      "[currency_pattern [''revenue'', ''sales'', ''total revenue''],
        scaled_pattern [''revenue'', ''sales'']]"
      "user_extract_text basic_lib scaled_text"]
  note d = first_pattern_first_occurrence [of basic_lib late_text
      "extract_text basic_lib late_text"
      "''revenue''" "[]" "currency_pattern [''revenue'', ''sales'', ''total revenue'']"
      "[]" "[]" "[]" "[]" "user_extract_text basic_lib late_text"]
  have ta: "truncate_summary basic_lib revenue_text = revenue_text"
    using a by (simp add: revenue_words)
  have tc: "truncate_summary basic_lib scaled_text = scaled_text"
    using c by (simp add: scaled_words)
  have td: "truncate_summary basic_lib late_text
      = join (py '' '') (replicate 200 (py ''w'')) @ truncation_marker"
    using d by (simp add: late_split)
  from a b c revenue_in_repo revenue_in_user_base cash_in_repo show ?thesis
    unfolding ta tc td
    by (simp add: repo_on_str user_on_str revenue_findall revenue_words late_words
        revenue_findall_cash scaled_findall_currency scaled_findall_scaled)
qed

section \<open>Metric values as pieces of the text\<close>




end
